theory Spec2Isabelle
  imports Main
begin

section \<open>The hash engine of hash.c, over st tables\<close>

text \<open>
  hash.c carries two configurations, told apart by \<^verbatim>\<open>WITH_OBJC\<close>. As it stands the
  file builds with \<^verbatim>\<open>WITH_OBJC\<close> only: \<^verbatim>\<open>rb_hash_dup\<close> and \<^verbatim>\<open>rb_hash_clone\<close>
  call CoreFoundation outside any conditional. The part of this development headed
  \<open>over CoreFoundation dictionaries\<close> follows those branches, and what is proved of
  traversal, deletion, rehashing, enumeration order and merging is proved there.

  This first part follows the other branches, over \<^verbatim>\<open>st_table\<close>, for the operations
  whose logic is the same in both: lookup and fetch, the default value, the check that
  the writing operations make on entry, and the traversal that \<^verbatim>\<open>merge!\<close> and
  \<^verbatim>\<open>replace\<close> start. Ruby objects are addresses into a store of
  \<^verbatim>\<open>struct RHash\<close> records; an exception is the left summand of a result, and the
  store it leaves behind is returned with it.
\<close>

subsection \<open>Values, exceptions, tables\<close>

datatype VALUE =
    Qnil | Qundef | Qtrue | Qfalse
  | Fixnum int
  | Symbol string
  | String string
  | Array "VALUE list"
  | Proc nat
  | Hash nat
  | Envtbl
  | Enumerator VALUE string

datatype exc_class =
  eRuntimeError | eKeyError | eArgError | eSecurityError | eTypeError | eStandardError

datatype error = Raise exc_class string

datatype st_retval = ST_CONTINUE | ST_STOP | ST_DELETE | ST_CHECK

datatype st_hash_type = objhash | identhash

definition RTEST :: "VALUE \<Rightarrow> bool" where
  "RTEST v = (v \<noteq> Qnil \<and> v \<noteq> Qfalse)"

definition NIL_P :: "VALUE \<Rightarrow> bool" where
  "NIL_P v = (v = Qnil)"

fun FIXNUM_P :: "VALUE \<Rightarrow> bool" where
  "FIXNUM_P (Fixnum _) = True"
| "FIXNUM_P _ = False"

fun SYMBOL_P :: "VALUE \<Rightarrow> bool" where
  "SYMBOL_P (Symbol _) = True"
| "SYMBOL_P _ = False"

fun T_STRING_P :: "VALUE \<Rightarrow> bool" where
  "T_STRING_P (String _) = True"
| "T_STRING_P _ = False"

text \<open>
  Modelled from the spec: \<^verbatim>\<open>rb_eql\<close> and \<^verbatim>\<open>rb_str_hash_cmp\<close> belong to the
  Key-Comparator capability (object.c, string.c). Values here are their contents,
  so value equality is equality of contents.
\<close>

definition rb_eql :: "VALUE \<Rightarrow> VALUE \<Rightarrow> bool" where
  "rb_eql a b = (a = b)"

definition rb_str_hash_cmp :: "VALUE \<Rightarrow> VALUE \<Rightarrow> int" where
  "rb_str_hash_cmp a b = (if a = b then 0 else 1)"

definition rb_any_cmp :: "VALUE \<Rightarrow> VALUE \<Rightarrow> int" where
  "rb_any_cmp a b =
     (if a = b then 0
      else if a = Qundef \<or> b = Qundef then - 1
      else if FIXNUM_P a \<and> FIXNUM_P b then (if a \<noteq> b then 1 else 0)
      else if SYMBOL_P a \<and> SYMBOL_P b then (if a \<noteq> b then 1 else 0)
      else if T_STRING_P a \<and> T_STRING_P b then rb_str_hash_cmp a b
      else (if rb_eql a b then 0 else 1))"

text \<open>
  Modelled from the spec: \<^verbatim>\<open>st_numcmp\<close> (st.c) compares the two words it is given. A
  value here is its contents and carries no address, so it tells apart only values
  of different contents.
\<close>

definition st_numcmp :: "VALUE \<Rightarrow> VALUE \<Rightarrow> int" where
  "st_numcmp x y = (if x \<noteq> y then 1 else 0)"

fun compare :: "st_hash_type \<Rightarrow> VALUE \<Rightarrow> VALUE \<Rightarrow> int" where
  "compare objhash = rb_any_cmp"
| "compare identhash = st_numcmp"

text \<open>
  Modelled from the spec: the Slot Store (st.c is not part of the sources). A table
  keeps its slots in insertion order; \<open>num_entries\<close> counts the live ones. A slot
  whose key is the \<open>never\<close> marker is a tombstone: still linked, no longer an entry.
  \<open>generation\<close> counts the physical unlinkings (the spec's structural generation),
  \<open>tbl_addr\<close> is the address of the table, compared where the code compares
  \<^verbatim>\<open>st_table *\<close> pointers.
\<close>

record st_table =
  tbl_addr :: nat
  tbl_type :: st_hash_type
  entries :: "(VALUE \<times> VALUE) list"
  num_entries :: int
  generation :: nat

definition EQUAL :: "st_table \<Rightarrow> VALUE \<Rightarrow> VALUE \<Rightarrow> bool" where
  "EQUAL tb x y = (x = y \<or> compare (tbl_type tb) x y = 0)"

fun slot_find :: "(VALUE \<Rightarrow> bool) \<Rightarrow> (VALUE \<times> VALUE) list \<Rightarrow> VALUE option" where
  "slot_find p [] = None"
| "slot_find p ((k, v) # es) = (if p k then Some v else slot_find p es)"

fun slot_store :: "(VALUE \<Rightarrow> bool) \<Rightarrow> VALUE \<Rightarrow> (VALUE \<times> VALUE) list \<Rightarrow> (VALUE \<times> VALUE) list" where
  "slot_store p val [] = []"
| "slot_store p val ((k, v) # es) = (if p k then (k, val) # es else (k, v) # slot_store p val es)"

fun slot_mark :: "(VALUE \<Rightarrow> bool) \<Rightarrow> VALUE \<Rightarrow> (VALUE \<times> VALUE) list \<Rightarrow> (VALUE \<times> VALUE) list" where
  "slot_mark p never [] = []"
| "slot_mark p never ((k, v) # es) =
     (if p k then (never, never) # es else (k, v) # slot_mark p never es)"

definition st_init_table :: "nat \<Rightarrow> st_hash_type \<Rightarrow> st_table" where
  "st_init_table addr ty =
     \<lparr>tbl_addr = addr, tbl_type = ty, entries = [], num_entries = 0, generation = 0\<rparr>"

definition st_lookup :: "st_table \<Rightarrow> VALUE \<Rightarrow> VALUE option" where
  "st_lookup tb key = slot_find (\<lambda>k. EQUAL tb key k) (entries tb)"

definition st_add_direct :: "st_table \<Rightarrow> VALUE \<Rightarrow> VALUE \<Rightarrow> st_table" where
  "st_add_direct tb key val =
     tb\<lparr>entries := entries tb @ [(key, val)], num_entries := num_entries tb + 1\<rparr>"

text \<open>\<open>st_insert\<close> overwrites the record of a key that is there (the slot keeps its
  place and its key) and links a new slot at the end otherwise.\<close>

definition st_insert :: "st_table \<Rightarrow> VALUE \<Rightarrow> VALUE \<Rightarrow> st_table" where
  "st_insert tb key val =
     (case st_lookup tb key of
        Some _ \<Rightarrow> tb\<lparr>entries := slot_store (\<lambda>k. EQUAL tb key k) val (entries tb)\<rparr>
      | None \<Rightarrow> st_add_direct tb key val)"

text \<open>\<open>st_delete_safe\<close> leaves the slot linked and overwrites key and record with
  \<open>never\<close>; \<open>st_cleanup_safe\<close> unlinks every slot marked so. Both return what the
  C functions return through their pointers.\<close>

definition st_delete_safe :: "st_table \<Rightarrow> VALUE \<Rightarrow> VALUE \<Rightarrow> VALUE option \<times> st_table" where
  "st_delete_safe tb key never =
     (case slot_find (\<lambda>k. k \<noteq> never \<and> EQUAL tb k key) (entries tb) of
        None \<Rightarrow> (None, tb)
      | Some v \<Rightarrow>
          (Some v, tb\<lparr>entries := slot_mark (\<lambda>k. k \<noteq> never \<and> EQUAL tb k key) never (entries tb),
                      num_entries := num_entries tb - 1\<rparr>))"

definition st_cleanup_safe :: "st_table \<Rightarrow> VALUE \<Rightarrow> st_table" where
  "st_cleanup_safe tb never =
     tb\<lparr>entries := filter (\<lambda>(k, v). k \<noteq> never) (entries tb),
        generation := Suc (generation tb)\<rparr>"

definition st_clear :: "st_table \<Rightarrow> st_table" where
  "st_clear tb = tb\<lparr>entries := [], num_entries := 0, generation := Suc (generation tb)\<rparr>"

subsection \<open>Hash objects and the store\<close>

text \<open>\<^verbatim>\<open>struct RHash\<close> with the flag bits the file tests: \<^verbatim>\<open>FL_FREEZE\<close>,
  \<^verbatim>\<open>FL_TAINT\<close>, \<^verbatim>\<open>HASH_DELETED\<close> (\<^verbatim>\<open>FL_USER1\<close>) and \<^verbatim>\<open>HASH_PROC_DEFAULT\<close>
  (\<^verbatim>\<open>FL_USER2\<close>). \<open>ntbl = None\<close> is the null table pointer.\<close>

record RHash =
  fl_freeze :: bool
  fl_taint :: bool
  hash_deleted :: bool
  hash_proc_default :: bool
  ntbl :: "st_table option"
  iter_lev :: int
  ifnone :: VALUE

text \<open>The store: the hash objects by address, the allocation pointer, the safe level,
  the process environment with its \<^verbatim>\<open>path_tainted\<close> cache, the warnings printed, and
  \<open>user\<close>, whatever state the caller's blocks keep for themselves.\<close>

record 'u world =
  hashes :: "nat \<Rightarrow> RHash"
  next_addr :: nat
  safe_level :: int
  environ :: "string list"
  path_tainted :: int
  warnings :: "string list"
  user :: 'u

type_synonym 'u block = "VALUE list \<Rightarrow> 'u world \<Rightarrow> (error + VALUE) \<times> 'u world"

type_synonym ('u, 'a) foreach_func =
  "VALUE \<Rightarrow> VALUE \<Rightarrow> 'a \<Rightarrow> 'u world \<Rightarrow> (error + st_retval \<times> 'a) \<times> 'u world"

definition upd_hash :: "nat \<Rightarrow> (RHash \<Rightarrow> RHash) \<Rightarrow> 'u world \<Rightarrow> 'u world" where
  "upd_hash hash f w = w\<lparr>hashes := (hashes w)(hash := f (hashes w hash))\<rparr>"

definition upd_tbl :: "nat \<Rightarrow> (st_table \<Rightarrow> st_table) \<Rightarrow> 'u world \<Rightarrow> 'u world" where
  "upd_tbl hash f w = upd_hash hash (\<lambda>h. h\<lparr>ntbl := map_option f (ntbl h)\<rparr>) w"


text \<open>Modelled from the spec: \<^verbatim>\<open>rb_error_frozen\<close> (error.c) raises the
  frozen-state error, a \<^verbatim>\<open>RuntimeError\<close> in this version of the runtime.\<close>

definition rb_error_frozen :: "string \<Rightarrow> error" where
  "rb_error_frozen what = Raise eRuntimeError (''can't modify frozen '' @ what)"

text \<open>\<^verbatim>\<open>NEWOBJ\<close> hands out zeroed memory; \<open>hash_alloc\<close> sets \<open>ifnone\<close>.\<close>

definition new_RHash :: RHash where
  "new_RHash =
     \<lparr>fl_freeze = False, fl_taint = False, hash_deleted = False,
      hash_proc_default = False, ntbl = None, iter_lev = 0, ifnone = Qnil\<rparr>"

definition hash_alloc :: "'u world \<Rightarrow> nat \<times> 'u world" where
  "hash_alloc w =
     (next_addr w,
      w\<lparr>hashes := (hashes w)(next_addr w := new_RHash), next_addr := Suc (next_addr w)\<rparr>)"

definition rb_hash_new :: "'u world \<Rightarrow> nat \<times> 'u world" where
  "rb_hash_new w = hash_alloc w"

definition rb_hash_modify_check :: "nat \<Rightarrow> 'u world \<Rightarrow> error option" where
  "rb_hash_modify_check hash w =
     (if fl_freeze (hashes w hash) then Some (rb_error_frozen ''hash'')
      else if \<not> fl_taint (hashes w hash) \<and> safe_level w \<ge> 4
        then Some (Raise eSecurityError ''Insecure: can't modify hash'')
      else None)"

definition rb_hash_tbl :: "nat \<Rightarrow> 'u world \<Rightarrow> 'u world" where
  "rb_hash_tbl hash w =
     (case ntbl (hashes w hash) of
        None \<Rightarrow>
          (upd_hash hash (\<lambda>h. h\<lparr>ntbl := Some (st_init_table (next_addr w) objhash)\<rparr>) w)
            \<lparr>next_addr := Suc (next_addr w)\<rparr>
      | Some _ \<Rightarrow> w)"

definition rb_hash_modify :: "nat \<Rightarrow> 'u world \<Rightarrow> error option \<times> 'u world" where
  "rb_hash_modify hash w =
     (case rb_hash_modify_check hash w of
        Some e \<Rightarrow> (Some e, w)
      | None \<Rightarrow> (None, rb_hash_tbl hash w))"

subsection \<open>The traversal primitive\<close>

text \<open>
  Modelled from the spec: \<open>st_foreach\<close> (st.c). The table is named by the hash that
  owns it, and the cursor is a slot position. \<^verbatim>\<open>ST_CHECK\<close> asks whether the
  table was restructured under the cursor, \<^verbatim>\<open>ST_DELETE\<close> unlinks the slot at the
  cursor. The result \<open>1\<close> reports a restructured table. A callback that keeps linking
  new slots keeps the loop running: the first argument bounds the number of steps, and
  \<open>None\<close> is a loop that was still running when the bound was reached.
\<close>

definition tbl_stamp :: "st_table option \<Rightarrow> (nat \<times> nat) option" where
  "tbl_stamp t = map_option (\<lambda>tb. (tbl_addr tb, generation tb)) t"

definition unlink_at :: "nat \<Rightarrow> st_table \<Rightarrow> st_table" where
  "unlink_at i tb =
     tb\<lparr>entries := take i (entries tb) @ drop (Suc i) (entries tb),
        num_entries := num_entries tb - 1,
        generation := Suc (generation tb)\<rparr>"

fun st_foreach ::
  "nat \<Rightarrow> nat \<Rightarrow> ('u, 'a) foreach_func \<Rightarrow> 'a \<Rightarrow> nat \<Rightarrow> 'u world
     \<Rightarrow> ((error + int \<times> 'a) \<times> 'u world) option" where
  "st_foreach 0 hash func a i w = None"
| "st_foreach (Suc n) hash func a i w =
     (case ntbl (hashes w hash) of
        None \<Rightarrow> Some (Inr (0, a), w)
      | Some tb \<Rightarrow>
          if length (entries tb) \<le> i then Some (Inr (0, a), w)
          else
            (case func (fst (entries tb ! i)) (snd (entries tb ! i)) a w of
               (Inl e, w') \<Rightarrow> Some (Inl e, w')
             | (Inr (retval, a'), w') \<Rightarrow>
                 (case retval of
                    ST_CHECK \<Rightarrow>
                      if tbl_stamp (ntbl (hashes w' hash)) \<noteq> tbl_stamp (Some tb)
                      then Some (Inr (1, a'), w')
                      else st_foreach n hash func a' (Suc i) w'
                  | ST_CONTINUE \<Rightarrow> st_foreach n hash func a' (Suc i) w'
                  | ST_STOP \<Rightarrow> Some (Inr (0, a'), w')
                  | ST_DELETE \<Rightarrow> st_foreach n hash func a' i (upd_tbl hash (unlink_at i) w'))))"

definition hash_foreach_iter :: "nat \<Rightarrow> ('u, 'a) foreach_func \<Rightarrow> ('u, 'a) foreach_func" where
  "hash_foreach_iter hash func key val a w =
     (let tbl = ntbl (hashes w hash) in
      if key = Qundef then (Inr (ST_CONTINUE, a), w)
      else
        (case func key val a w of
           (Inl e, w') \<Rightarrow> (Inl e, w')
         | (Inr (status, a'), w') \<Rightarrow>
             if map_option tbl_addr (ntbl (hashes w' hash)) \<noteq> map_option tbl_addr tbl
             then (Inl (Raise eRuntimeError ''rehash occurred during iteration''), w')
             else
               (case status of
                  ST_DELETE \<Rightarrow>
                    (Inr (ST_CHECK, a'),
                     upd_hash hash (\<lambda>h. h\<lparr>hash_deleted := True\<rparr>)
                       (upd_tbl hash (\<lambda>tb. snd (st_delete_safe tb key Qundef)) w'))
                | ST_CONTINUE \<Rightarrow> (Inr (ST_CHECK, a'), w')
                | ST_STOP \<Rightarrow> (Inr (ST_STOP, a'), w')
                | ST_CHECK \<Rightarrow> (Inr (ST_CHECK, a'), w'))))"

definition hash_foreach_ensure :: "nat \<Rightarrow> 'u world \<Rightarrow> 'u world" where
  "hash_foreach_ensure hash w =
     (let w1 = upd_hash hash (\<lambda>h. h\<lparr>iter_lev := iter_lev h - 1\<rparr>) w in
      if iter_lev (hashes w1 hash) = 0 then
        (if hash_deleted (hashes w1 hash)
         then upd_hash hash (\<lambda>h. h\<lparr>hash_deleted := False\<rparr>)
                (upd_tbl hash (\<lambda>tb. st_cleanup_safe tb Qundef) w1)
         else w1)
      else w1)"

definition hash_foreach_call ::
  "nat \<Rightarrow> nat \<Rightarrow> ('u, 'a) foreach_func \<Rightarrow> 'a \<Rightarrow> 'u world \<Rightarrow> ((error + 'a) \<times> 'u world) option" where
  "hash_foreach_call fuel hash func a w =
     (case st_foreach fuel hash (hash_foreach_iter hash func) a 0 w of
        None \<Rightarrow> None
      | Some (Inl e, w') \<Rightarrow> Some (Inl e, w')
      | Some (Inr (r, a'), w') \<Rightarrow>
          if r \<noteq> 0 then Some (Inl (Raise eRuntimeError ''hash modified during iteration''), w')
          else Some (Inr a', w'))"

text \<open>\<^verbatim>\<open>rb_ensure\<close> runs \<open>hash_foreach_ensure\<close> on every way out of
  \<open>hash_foreach_call\<close>, the raising ones included.\<close>

definition rb_hash_foreach ::
  "nat \<Rightarrow> nat \<Rightarrow> ('u, 'a) foreach_func \<Rightarrow> 'a \<Rightarrow> 'u world \<Rightarrow> ((error + 'a) \<times> 'u world) option" where
  "rb_hash_foreach fuel hash func farg w =
     (case ntbl (hashes w hash) of
        None \<Rightarrow> Some (Inr farg, w)
      | Some _ \<Rightarrow>
          (case hash_foreach_call fuel hash func farg
                  (upd_hash hash (\<lambda>h. h\<lparr>iter_lev := iter_lev h + 1\<rparr>) w) of
             None \<Rightarrow> None
           | Some (r, w') \<Rightarrow> Some (r, hash_foreach_ensure hash w')))"

subsection \<open>Construction and the default value\<close>

text \<open>Modelled from the spec: \<^verbatim>\<open>rb_scan_args\<close> (class.c) raises on a wrong number
  of arguments; \<^verbatim>\<open>rb_convert_type\<close> (object.c) hands a hash back and refuses what
  is not one. Calling \<^verbatim>\<open>yield\<close> on the default procedure is the parameter \<open>Y\<close>:
  the procedure may do to the store whatever a block may.\<close>

definition wrong_args :: error where
  "wrong_args = Raise eArgError ''wrong number of arguments''"

fun to_hash :: "VALUE \<Rightarrow> error + nat" where
  "to_hash (Hash b) = Inr b"
| "to_hash _ = Inl (Raise eTypeError ''can't convert into Hash'')"


definition rb_hash_default :: "(VALUE \<Rightarrow> 'u block) \<Rightarrow> VALUE list \<Rightarrow> nat \<Rightarrow> 'u world \<Rightarrow> (error + VALUE) \<times> 'u world" where
  "rb_hash_default Y argv hash w =
     (if length argv > 1 then (Inl wrong_args, w)
      else if hash_proc_default (hashes w hash) then
        (case argv of
           [] \<Rightarrow> (Inr Qnil, w)
         | key # _ \<Rightarrow> Y (ifnone (hashes w hash)) [Hash hash, key] w)
      else (Inr (ifnone (hashes w hash)), w))"

definition rb_hash_set_default :: "nat \<Rightarrow> VALUE \<Rightarrow> 'u world \<Rightarrow> (error + VALUE) \<times> 'u world" where
  "rb_hash_set_default hash ifnone' w =
     (case rb_hash_modify hash w of
        (Some e, w') \<Rightarrow> (Inl e, w')
      | (None, w') \<Rightarrow>
          (Inr ifnone',
           upd_hash hash (\<lambda>h. h\<lparr>ifnone := ifnone', hash_proc_default := False\<rparr>) w'))"


subsection \<open>Reading\<close>

definition hash_lookup :: "nat \<Rightarrow> VALUE \<Rightarrow> 'u world \<Rightarrow> VALUE option" where
  "hash_lookup hash key w =
     (case ntbl (hashes w hash) of None \<Rightarrow> None | Some tb \<Rightarrow> st_lookup tb key)"

text \<open>\<open>rb_hash_aref\<close> sends \<^verbatim>\<open>default\<close> to the hash on a miss; the method of that
  name is \<open>rb_hash_default\<close>.\<close>

definition rb_hash_aref :: "(VALUE \<Rightarrow> 'u block) \<Rightarrow> nat \<Rightarrow> VALUE \<Rightarrow> 'u world \<Rightarrow> (error + VALUE) \<times> 'u world" where
  "rb_hash_aref Y hash key w =
     (case hash_lookup hash key w of
        None \<Rightarrow> rb_hash_default Y [key] hash w
      | Some val \<Rightarrow> (Inr val, w))"


definition rb_hash_size :: "nat \<Rightarrow> 'u world \<Rightarrow> VALUE" where
  "rb_hash_size hash w =
     (case ntbl (hashes w hash) of None \<Rightarrow> Fixnum 0 | Some tb \<Rightarrow> Fixnum (num_entries tb))"

definition rb_hash_has_key :: "nat \<Rightarrow> VALUE \<Rightarrow> 'u world \<Rightarrow> VALUE" where
  "rb_hash_has_key hash key w =
     (case ntbl (hashes w hash) of
        None \<Rightarrow> Qfalse
      | Some tb \<Rightarrow> (if st_lookup tb key \<noteq> None then Qtrue else Qfalse))"

subsection \<open>Writing\<close>

text \<open>A new \<^verbatim>\<open>String\<close> key is stored as the frozen copy \<^verbatim>\<open>rb_str_new4\<close> makes of
  it, which has the key's contents.\<close>

definition rb_str_new4 :: "VALUE \<Rightarrow> VALUE" where
  "rb_str_new4 key = key"

definition rb_hash_aset :: "nat \<Rightarrow> VALUE \<Rightarrow> VALUE \<Rightarrow> 'u world \<Rightarrow> (error + VALUE) \<times> 'u world" where
  "rb_hash_aset hash key val w =
     (case rb_hash_modify hash w of
        (Some e, w') \<Rightarrow> (Inl e, w')
      | (None, w') \<Rightarrow>
          (Inr val,
           upd_tbl hash
             (\<lambda>tb. if tbl_type tb = identhash \<or> \<not> T_STRING_P key \<or> st_lookup tb key \<noteq> None
                   then st_insert tb key val
                   else st_add_direct tb (rb_str_new4 key) val) w'))"

definition clear_i :: "('u, 'a) foreach_func" where
  "clear_i key val dummy w = (Inr (ST_DELETE, dummy), w)"

definition rb_hash_clear :: "nat \<Rightarrow> nat \<Rightarrow> 'u world \<Rightarrow> ((error + VALUE) \<times> 'u world) option" where
  "rb_hash_clear fuel hash w =
     (case rb_hash_modify_check hash w of
        Some e \<Rightarrow> Some (Inl e, w)
      | None \<Rightarrow>
          (case ntbl (hashes w hash) of
             None \<Rightarrow> Some (Inr (Hash hash), w)
           | Some tb \<Rightarrow>
               if num_entries tb > 0 then
                 (if iter_lev (hashes w hash) > 0 then
                    (case rb_hash_foreach fuel hash clear_i () w of
                       None \<Rightarrow> None
                     | Some (Inl e, w') \<Rightarrow> Some (Inl e, w')
                     | Some (Inr _, w') \<Rightarrow> Some (Inr (Hash hash), w'))
                  else Some (Inr (Hash hash), upd_tbl hash st_clear w))
               else Some (Inr (Hash hash), w)))"

definition replace_i :: "('u, nat) foreach_func" where
  "replace_i key val hash w =
     (if key \<noteq> Qundef then
        (case rb_hash_aset hash key val w of
           (Inl e, w') \<Rightarrow> (Inl e, w')
         | (Inr _, w') \<Rightarrow> (Inr (ST_CONTINUE, hash), w'))
      else (Inr (ST_CONTINUE, hash), w))"

definition rb_hash_replace :: "nat \<Rightarrow> nat \<Rightarrow> VALUE \<Rightarrow> 'u world \<Rightarrow> ((error + VALUE) \<times> 'u world) option" where
  "rb_hash_replace fuel hash hash2 w =
     (case to_hash hash2 of
        Inl e \<Rightarrow> Some (Inl e, w)
      | Inr h2 \<Rightarrow>
          if hash = h2 then Some (Inr (Hash hash), w)
          else
            (case rb_hash_clear fuel hash w of
               None \<Rightarrow> None
             | Some (Inl e, w1) \<Rightarrow> Some (Inl e, w1)
             | Some (Inr _, w1) \<Rightarrow>
                 (case rb_hash_foreach fuel h2 replace_i hash w1 of
                    None \<Rightarrow> None
                  | Some (Inl e, w2) \<Rightarrow> Some (Inl e, w2)
                  | Some (Inr _, w2) \<Rightarrow>
                      Some (Inr (Hash hash),
                            upd_hash hash
                              (\<lambda>h. h\<lparr>ifnone := ifnone (hashes w2 h2),
                                      hash_proc_default := hash_proc_default (hashes w2 h2)\<rparr>) w2))))"

subsection \<open>Merging\<close>

definition rb_hash_update_i :: "('u, nat) foreach_func" where
  "rb_hash_update_i key val hash w =
     (if key = Qundef then (Inr (ST_CONTINUE, hash), w)
      else
        (case rb_hash_aset hash key val w of
           (Inl e, w') \<Rightarrow> (Inl e, w')
         | (Inr _, w') \<Rightarrow> (Inr (ST_CONTINUE, hash), w')))"

definition rb_hash_update_block_i :: "(VALUE \<Rightarrow> 'u block) \<Rightarrow> 'u block \<Rightarrow> ('u, nat) foreach_func" where
  "rb_hash_update_block_i Y blk key val hash w =
     (if key = Qundef then (Inr (ST_CONTINUE, hash), w)
      else
        (case (if rb_hash_has_key hash key w \<noteq> Qfalse then
                 (case rb_hash_aref Y hash key w of
                    (Inl e, w1) \<Rightarrow> (Inl e, w1)
                  | (Inr old, w1) \<Rightarrow> blk [key, old, val] w1)
               else (Inr val, w)) of
           (Inl e, w2) \<Rightarrow> (Inl e, w2)
         | (Inr val', w2) \<Rightarrow>
             (case rb_hash_aset hash key val' w2 of
                (Inl e, w3) \<Rightarrow> (Inl e, w3)
              | (Inr _, w3) \<Rightarrow> (Inr (ST_CONTINUE, hash), w3))))"

definition rb_hash_update ::
  "nat \<Rightarrow> (VALUE \<Rightarrow> 'u block) \<Rightarrow> 'u block option \<Rightarrow> nat \<Rightarrow> VALUE \<Rightarrow> 'u world
     \<Rightarrow> ((error + VALUE) \<times> 'u world) option" where
  "rb_hash_update fuel Y blk hash1 hash2 w =
     (case to_hash hash2 of
        Inl e \<Rightarrow> Some (Inl e, w)
      | Inr h2 \<Rightarrow>
          (case (case blk of
                   Some b \<Rightarrow> rb_hash_foreach fuel h2 (rb_hash_update_block_i Y b) hash1 w
                 | None \<Rightarrow> rb_hash_foreach fuel h2 rb_hash_update_i hash1 w) of
             None \<Rightarrow> None
           | Some (Inl e, w') \<Rightarrow> Some (Inl e, w')
           | Some (Inr _, w') \<Rightarrow> Some (Inr (Hash hash1), w')))"

section \<open>The environment view\<close>

text \<open>
  Modelled from the spec: the OS environment capability (\<^verbatim>\<open>getenv\<close>, \<^verbatim>\<open>setenv\<close>,
  \<^verbatim>\<open>unsetenv\<close> of the C library, and the \<^verbatim>\<open>environ\<close> array they work on). The
  array is the list of its \<^verbatim>\<open>NAME=value\<close> strings; \<open>unsetenv\<close> closes the gap in
  place, as the loop of \<open>ruby_setenv\<close> written for systems without it does, and
  \<open>setenv\<close> overwrites the entry of a name that is set and appends otherwise.
\<close>

definition names :: "string \<Rightarrow> string \<Rightarrow> bool" where
  "names nam e = (take (Suc (length nam)) e = nam @ ''='')"

fun getenv :: "string list \<Rightarrow> string \<Rightarrow> string option" where
  "getenv [] nam = None"
| "getenv (e # es) nam = (if names nam e then Some (drop (Suc (length nam)) e) else getenv es nam)"

definition unsetenv :: "string list \<Rightarrow> string \<Rightarrow> string list" where
  "unsetenv env nam = filter (\<lambda>e. \<not> names nam e) env"

fun overwrite :: "string \<Rightarrow> string \<Rightarrow> string list \<Rightarrow> string list" where
  "overwrite nam val [] = []"
| "overwrite nam val (e # es) =
     (if names nam e then (nam @ ''='' @ val) # es else e # overwrite nam val es)"

definition setenv :: "string list \<Rightarrow> string \<Rightarrow> string \<Rightarrow> string list" where
  "setenv env nam val =
     (if getenv env nam \<noteq> None then overwrite nam val env else env @ [nam @ ''='' @ val])"

definition strlen :: "string \<Rightarrow> nat" where
  "strlen s = length (takeWhile (\<lambda>c. c \<noteq> CHR 0x00) s)"

definition PATH_ENV :: string where
  "PATH_ENV = ''PATH''"

text \<open>Modelled from the spec: \<^verbatim>\<open>rb_secure\<close> refuses at the given safe level and
  above; \<^verbatim>\<open>StringValue\<close> refuses what is not a string.\<close>

definition rb_secure :: "int \<Rightarrow> 'u world \<Rightarrow> error option" where
  "rb_secure level w =
     (if level \<le> safe_level w then Some (Raise eSecurityError ''Insecure operation'') else None)"

fun StringValue :: "VALUE \<Rightarrow> error + string" where
  "StringValue (String s) = Inr s"
| "StringValue _ = Inl (Raise eTypeError ''can't convert into String'')"

definition ruby_setenv :: "string \<Rightarrow> string option \<Rightarrow> 'u world \<Rightarrow> 'u world" where
  "ruby_setenv name val w =
     (case val of
        Some v \<Rightarrow> w\<lparr>environ := setenv (environ w) name v\<rparr>
      | None \<Rightarrow> w\<lparr>environ := unsetenv (environ w) name\<rparr>)"

definition env_delete :: "VALUE \<Rightarrow> 'u world \<Rightarrow> (error + VALUE) \<times> 'u world" where
  "env_delete name w =
     (case rb_secure 4 w of
        Some e \<Rightarrow> (Inl e, w)
      | None \<Rightarrow>
          (case StringValue name of
             Inl e \<Rightarrow> (Inl e, w)
           | Inr nam \<Rightarrow>
               if strlen nam \<noteq> length nam
               then (Inl (Raise eArgError ''bad environment variable name''), w)
               else
                 (case getenv (environ w) nam of
                    Some val \<Rightarrow>
                      (Inr (String val),
                       (let w' = ruby_setenv nam None w in
                        if nam = PATH_ENV then w'\<lparr>path_tainted := 0\<rparr> else w'))
                  | None \<Rightarrow> (Inr Qnil, w))))"

definition rb_f_getenv :: "VALUE \<Rightarrow> 'u world \<Rightarrow> (error + VALUE) \<times> 'u world" where
  "rb_f_getenv name w =
     (case rb_secure 4 w of
        Some e \<Rightarrow> (Inl e, w)
      | None \<Rightarrow>
          (case StringValue name of
             Inl e \<Rightarrow> (Inl e, w)
           | Inr nam \<Rightarrow>
               if strlen nam \<noteq> length nam
               then (Inl (Raise eArgError ''bad environment variable name''), w)
               else
                 (case getenv (environ w) nam of
                    Some env \<Rightarrow> (Inr (String env), w)
                  | None \<Rightarrow> (Inr Qnil, w))))"

text \<open>\<open>env_aset\<close>. Whether the value is tainted and what \<^verbatim>\<open>rb_path_check\<close> says of a
  path are not in the file: they are the parameters \<open>tainted\<close> and \<open>path_check\<close>.\<close>

definition env_aset ::
  "(VALUE \<Rightarrow> bool) \<Rightarrow> (string \<Rightarrow> bool) \<Rightarrow> VALUE \<Rightarrow> VALUE \<Rightarrow> 'u world \<Rightarrow> (error + VALUE) \<times> 'u world" where
  "env_aset tainted path_check nm val w =
     (if safe_level w \<ge> 4
      then (Inl (Raise eSecurityError ''can't change environment variable''), w)
      else if NIL_P val
      then (Inl (Raise eTypeError ''cannot assign nil; use Hash#delete instead''), w)
      else
        (case StringValue nm of
           Inl e \<Rightarrow> (Inl e, w)
         | Inr name \<Rightarrow>
             (case StringValue val of
                Inl e \<Rightarrow> (Inl e, w)
              | Inr value \<Rightarrow>
                  if strlen name \<noteq> length name
                  then (Inl (Raise eArgError ''bad environment variable name''), w)
                  else if strlen value \<noteq> length value
                  then (Inl (Raise eArgError ''bad environment variable value''), w)
                  else
                    (let w' = ruby_setenv name (Some value) w in
                     if name = PATH_ENV then
                       (if tainted val then (Inr val, w'\<lparr>path_tainted := 1\<rparr>)
                        else (Inr val, w'\<lparr>path_tainted := (if path_check value then 0 else 1)\<rparr>))
                     else (Inr val, w')))))"

definition env_key :: "string \<Rightarrow> VALUE" where
  "env_key e = String (takeWhile (\<lambda>c. c \<noteq> CHR ''='') e)"

definition env_val :: "string \<Rightarrow> VALUE" where
  "env_val e = String (drop (Suc (length (takeWhile (\<lambda>c. c \<noteq> CHR ''='') e))) e)"

definition env_keys :: "'u world \<Rightarrow> (error + VALUE list) \<times> 'u world" where
  "env_keys w =
     (case rb_secure 4 w of
        Some e \<Rightarrow> (Inl e, w)
      | None \<Rightarrow> (Inr (map env_key (filter (\<lambda>e. CHR ''='' \<in> set e) (environ w))), w))"

text \<open>\<open>env_reject_bang\<close> walks the array \<open>env_keys\<close> returned; \<open>del\<close> counts the
  deletions.\<close>

fun env_reject_loop :: "'u block \<Rightarrow> VALUE list \<Rightarrow> nat \<Rightarrow> 'u world \<Rightarrow> (error + nat) \<times> 'u world" where
  "env_reject_loop blk [] del w = (Inr del, w)"
| "env_reject_loop blk (key # keys) del w =
     (case rb_f_getenv key w of
        (Inl e, w1) \<Rightarrow> (Inl e, w1)
      | (Inr val, w1) \<Rightarrow>
          if \<not> NIL_P val then
            (case blk [key, val] w1 of
               (Inl e, w2) \<Rightarrow> (Inl e, w2)
             | (Inr r, w2) \<Rightarrow>
                 if RTEST r then
                   (case env_delete key w2 of
                      (Inl e, w3) \<Rightarrow> (Inl e, w3)
                    | (Inr _, w3) \<Rightarrow> env_reject_loop blk keys (Suc del) w3)
                 else env_reject_loop blk keys del w2)
          else env_reject_loop blk keys del w1)"

definition env_reject_bang :: "'u block option \<Rightarrow> 'u world \<Rightarrow> (error + VALUE) \<times> 'u world" where
  "env_reject_bang blk w =
     (case blk of
        None \<Rightarrow> (Inr (Enumerator Envtbl ''reject!''), w)
      | Some b \<Rightarrow>
          (case env_keys w of
             (Inl e, w1) \<Rightarrow> (Inl e, w1)
           | (Inr keys, w1) \<Rightarrow>
               (case env_reject_loop b keys 0 w1 of
                  (Inl e, w2) \<Rightarrow> (Inl e, w2)
                | (Inr del, w2) \<Rightarrow> if del = 0 then (Inr Qnil, w2) else (Inr Envtbl, w2))))"

text \<open>\<open>env_select\<close> reads \<^verbatim>\<open>*env\<close> and steps \<^verbatim>\<open>env++\<close> over the array the
  environment is kept in, yielding in between: the cursor is a position in whatever
  the array holds when it is read. The first argument bounds the number of steps.\<close>

fun env_select_loop :: "nat \<Rightarrow> 'u block \<Rightarrow> nat \<Rightarrow> nat \<Rightarrow> 'u world \<Rightarrow> ((error + unit) \<times> 'u world) option" where
  "env_select_loop 0 blk result i w = None"
| "env_select_loop (Suc n) blk result i w =
     (if length (environ w) \<le> i then Some (Inr (), w)
      else
        (let e = environ w ! i in
         if CHR ''='' \<in> set e then
           (case blk [env_key e, env_val e] w of
              (Inl err, w1) \<Rightarrow> Some (Inl err, w1)
            | (Inr r, w1) \<Rightarrow>
                if RTEST r then
                  (case rb_hash_aset result (env_key e) (env_val e) w1 of
                     (Inl err, w2) \<Rightarrow> Some (Inl err, w2)
                   | (Inr _, w2) \<Rightarrow> env_select_loop n blk result (Suc i) w2)
                else env_select_loop n blk result (Suc i) w1)
         else env_select_loop n blk result (Suc i) w))"

definition env_select :: "nat \<Rightarrow> 'u block option \<Rightarrow> 'u world \<Rightarrow> ((error + VALUE) \<times> 'u world) option" where
  "env_select fuel blk w =
     (case blk of
        None \<Rightarrow> Some (Inr (Enumerator Envtbl ''select''), w)
      | Some b \<Rightarrow>
          (case rb_secure 4 w of
             Some e \<Rightarrow> Some (Inl e, w)
           | None \<Rightarrow>
               (case rb_hash_new w of
                  (result, w1) \<Rightarrow>
                    (case env_select_loop fuel b result 0 w1 of
                       None \<Rightarrow> None
                     | Some (Inl e, w2) \<Rightarrow> Some (Inl e, w2)
                     | Some (Inr _, w2) \<Rightarrow> Some (Inr (Hash result), w2)))))"

section \<open>The hash engine of hash.c, over CoreFoundation dictionaries\<close>

text \<open>
  The branches under \<^verbatim>\<open>#if WITH_OBJC\<close>, with the functions hash.c defines outside
  any conditional. A hash is a \<^verbatim>\<open>CFMutableDictionary\<close>; its frozen and tainted bits
  are in a mask kept beside the object (\<^verbatim>\<open>rb_objc_flag_get_mask\<close>) and its default
  in a \<^verbatim>\<open>struct rb_objc_hash_struct\<close> associated with it, absent until first set.
  There is no traversal depth, no deletion flag and no tombstone in these branches.

  A definition that embeds the \<^verbatim>\<open>WITH_OBJC\<close> body of a function whose other body
  stands in the first part carries the suffix \<open>_objc\<close>; so does a function with a single
  body when it stands in the first part over st tables. Everything else keeps its name.
\<close>

subsection \<open>Dictionaries, flags and the store\<close>

text \<open>
  Modelled from the spec: CoreFoundation is not part of the sources. The dictionary
  is the Slot Store of the specification (lookup, insert, remove, size, clear) over
  a list of pairs with pairwise different keys: \<^verbatim>\<open>CFDictionarySetValue\<close> replaces the
  value of a key that is there and adds the pair otherwise,
  \<^verbatim>\<open>CFDictionaryRemoveValue\<close> drops the pair of the key. Keys are compared with the
  callback \<^verbatim>\<open>hash_alloc\<close> installs (\<^verbatim>\<open>kCFTypeDictionaryKeyCallBacks\<close>, equality of
  values); \<^verbatim>\<open>compare_by_identity\<close>, which swaps that callback for pointer equality,
  is not part of this model, whose values carry no address.

  Nothing in the sources fixes the order in which \<^verbatim>\<open>CFDictionaryGetKeysAndValues\<close>
  fills its arrays. It is the parameter \<open>E\<close> of every traversal: \<open>E ps\<close> is the pairs
  \<open>ps\<close> of the dictionary in the order it reports them.
\<close>

record rb_objc_hash_struct =
  ifnone_objc :: VALUE
  has_proc_default :: bool

record objc_hash =
  cf_pairs :: "(VALUE \<times> VALUE) list"
  cf_mutable :: bool
  mask_freeze :: bool
  mask_taint :: bool
  hash_struct :: "rb_objc_hash_struct option"

type_synonym cf_order = "(VALUE \<times> VALUE) list \<Rightarrow> (VALUE \<times> VALUE) list"

definition CFDictionaryCreateMutable :: objc_hash where
  "CFDictionaryCreateMutable =
     \<lparr>cf_pairs = [], cf_mutable = True, mask_freeze = False, mask_taint = False,
      hash_struct = None\<rparr>"

definition CFDictionaryCreateMutableCopy :: "objc_hash \<Rightarrow> objc_hash" where
  "CFDictionaryCreateMutableCopy d = CFDictionaryCreateMutable\<lparr>cf_pairs := cf_pairs d\<rparr>"

definition CFDictionaryGetCount :: "objc_hash \<Rightarrow> int" where
  "CFDictionaryGetCount d = int (length (cf_pairs d))"

definition CFDictionaryGetValueIfPresent :: "objc_hash \<Rightarrow> VALUE \<Rightarrow> VALUE option" where
  "CFDictionaryGetValueIfPresent d key = map_of (cf_pairs d) key"

definition CFDictionaryContainsKey :: "objc_hash \<Rightarrow> VALUE \<Rightarrow> bool" where
  "CFDictionaryContainsKey d key = (map_of (cf_pairs d) key \<noteq> None)"

definition CFDictionarySetValue :: "objc_hash \<Rightarrow> VALUE \<Rightarrow> VALUE \<Rightarrow> objc_hash" where
  "CFDictionarySetValue d key val =
     d\<lparr>cf_pairs :=
         (if map_of (cf_pairs d) key \<noteq> None
          then map (\<lambda>(k, v). if k = key then (k, val) else (k, v)) (cf_pairs d)
          else cf_pairs d @ [(key, val)])\<rparr>"

definition CFDictionaryRemoveValue :: "objc_hash \<Rightarrow> VALUE \<Rightarrow> objc_hash" where
  "CFDictionaryRemoveValue d key = d\<lparr>cf_pairs := filter (\<lambda>(k, v). k \<noteq> key) (cf_pairs d)\<rparr>"

definition CFDictionaryRemoveAllValues :: "objc_hash \<Rightarrow> objc_hash" where
  "CFDictionaryRemoveAllValues d = d\<lparr>cf_pairs := []\<rparr>"

definition CFDictionaryGetKeysAndValues :: "cf_order \<Rightarrow> objc_hash \<Rightarrow> (VALUE \<times> VALUE) list" where
  "CFDictionaryGetKeysAndValues E d = E (cf_pairs d)"

text \<open>The store: the hashes by address, the allocation pointer, the safe level, and
  \<open>ustate\<close>, whatever state the caller's blocks keep for themselves.\<close>

record 'u objc_world =
  objs :: "nat \<Rightarrow> objc_hash"
  next_obj :: nat
  rb_safe_level :: int
  ustate :: 'u

type_synonym 'u objc_block = "VALUE list \<Rightarrow> 'u objc_world \<Rightarrow> (error + VALUE) \<times> 'u objc_world"

type_synonym ('u, 'a) objc_foreach_func =
  "VALUE \<Rightarrow> VALUE \<Rightarrow> 'a \<Rightarrow> 'u objc_world \<Rightarrow> (error + st_retval \<times> 'a) \<times> 'u objc_world"

definition upd_obj :: "nat \<Rightarrow> (objc_hash \<Rightarrow> objc_hash) \<Rightarrow> 'u objc_world \<Rightarrow> 'u objc_world" where
  "upd_obj hash f w = w\<lparr>objs := (objs w)(hash := f (objs w hash))\<rparr>"

text \<open>\<open>rb_objc_hash_get_struct2\<close> allocates the structure when there is none;
  \<open>rb_objc_hash_set_struct\<close> writes both of its fields.\<close>

definition rb_objc_hash_get_struct :: "nat \<Rightarrow> 'u objc_world \<Rightarrow> rb_objc_hash_struct option" where
  "rb_objc_hash_get_struct hash w = hash_struct (objs w hash)"

definition rb_objc_hash_get_struct2 :: "nat \<Rightarrow> 'u objc_world \<Rightarrow> rb_objc_hash_struct \<times> 'u objc_world" where
  "rb_objc_hash_get_struct2 hash w =
     (case rb_objc_hash_get_struct hash w of
        None \<Rightarrow>
          (\<lparr>ifnone_objc = Qnil, has_proc_default = False\<rparr>,
           upd_obj hash
             (\<lambda>d. d\<lparr>hash_struct := Some \<lparr>ifnone_objc = Qnil, has_proc_default = False\<rparr>\<rparr>) w)
      | Some s \<Rightarrow> (s, w))"

definition rb_objc_hash_set_struct :: "nat \<Rightarrow> VALUE \<Rightarrow> bool \<Rightarrow> 'u objc_world \<Rightarrow> 'u objc_world" where
  "rb_objc_hash_set_struct hash ifnone' has_proc_default' w =
     (case rb_objc_hash_get_struct2 hash w of
        (s, w') \<Rightarrow>
          upd_obj hash
            (\<lambda>d. d\<lparr>hash_struct :=
                     Some (s\<lparr>ifnone_objc := ifnone', has_proc_default := has_proc_default'\<rparr>)\<rparr>) w')"

text \<open>\<open>hash_alloc\<close> makes an empty mutable dictionary; the class argument does not
  bear on what follows. \<open>rb_hash_dup\<close> copies the pairs of the receiver into a new
  mutable dictionary and taints it when the receiver is tainted: the mask and the
  default structure belong to the object and are not copied.\<close>

definition hash_alloc_objc :: "'u objc_world \<Rightarrow> nat \<times> 'u objc_world" where
  "hash_alloc_objc w =
     (next_obj w,
      w\<lparr>objs := (objs w)(next_obj w := CFDictionaryCreateMutable), next_obj := Suc (next_obj w)\<rparr>)"

definition rb_hash_dup :: "nat \<Rightarrow> 'u objc_world \<Rightarrow> nat \<times> 'u objc_world" where
  "rb_hash_dup rcv w =
     (let dup = CFDictionaryCreateMutableCopy (objs w rcv) in
      (next_obj w,
       w\<lparr>objs := (objs w)(next_obj w :=
             (if mask_taint (objs w rcv) then dup\<lparr>mask_taint := True\<rparr> else dup)),
         next_obj := Suc (next_obj w)\<rparr>))"

text \<open>In this configuration \<^verbatim>\<open>rb_hash_modify\<close> is \<open>rb_hash_modify_check\<close>. A mask
  of 0 is a mask with neither bit set (its other bits are not modelled); only then is
  the dictionary asked whether it is mutable.\<close>

definition rb_hash_modify_check_objc :: "nat \<Rightarrow> 'u objc_world \<Rightarrow> error option" where
  "rb_hash_modify_check_objc hash w =
     (let d = objs w hash;
          freeze = (mask_freeze d \<or> (\<not> mask_freeze d \<and> \<not> mask_taint d \<and> \<not> cf_mutable d))
      in if freeze then Some (Raise eRuntimeError ''can't modify frozen/immutable hash'')
         else if mask_taint d \<and> rb_safe_level w \<ge> 4
           then Some (Raise eSecurityError ''Insecure: can't modify hash'')
         else None)"

subsection \<open>The traversal\<close>

text \<open>\<open>rb_hash_foreach\<close> copies the keys and values of the dictionary into two arrays
  and calls the function on each pair of the copy until it answers something other
  than \<^verbatim>\<open>ST_CONTINUE\<close>. \<open>foreach_loop\<close> is its \<^verbatim>\<open>for\<close> loop. What the function
  does to the dictionary meanwhile does not reach the arrays.\<close>

fun foreach_loop ::
  "('u, 'a) objc_foreach_func \<Rightarrow> (VALUE \<times> VALUE) list \<Rightarrow> 'a \<Rightarrow> 'u objc_world
     \<Rightarrow> (error + 'a) \<times> 'u objc_world" where
  "foreach_loop func [] farg w = (Inr farg, w)"
| "foreach_loop func ((key, val) # rest) farg w =
     (case func key val farg w of
        (Inl e, w') \<Rightarrow> (Inl e, w')
      | (Inr (status, farg'), w') \<Rightarrow>
          if status \<noteq> ST_CONTINUE then (Inr farg', w') else foreach_loop func rest farg' w')"

definition rb_hash_foreach_objc ::
  "cf_order \<Rightarrow> nat \<Rightarrow> ('u, 'a) objc_foreach_func \<Rightarrow> 'a \<Rightarrow> 'u objc_world
     \<Rightarrow> (error + 'a) \<times> 'u objc_world" where
  "rb_hash_foreach_objc E hash func farg w =
     (if CFDictionaryGetCount (objs w hash) = 0 then (Inr farg, w)
      else foreach_loop func (CFDictionaryGetKeysAndValues E (objs w hash)) farg w)"

subsection \<open>The default value\<close>


definition rb_hash_default_objc ::
  "(VALUE \<Rightarrow> 'u objc_block) \<Rightarrow> VALUE list \<Rightarrow> nat \<Rightarrow> 'u objc_world
     \<Rightarrow> (error + VALUE) \<times> 'u objc_world" where
  "rb_hash_default_objc Y argv hash w =
     (case rb_objc_hash_get_struct hash w of
        None \<Rightarrow> (Inr Qnil, w)
      | Some s \<Rightarrow>
          if ifnone_objc s = Qnil then (Inr Qnil, w)
          else if length argv > 1 then (Inl wrong_args, w)
          else if has_proc_default s then
            (case argv of
               [] \<Rightarrow> (Inr Qnil, w)
             | key # _ \<Rightarrow> Y (ifnone_objc s) [Hash hash, key] w)
          else (Inr (ifnone_objc s), w))"

definition rb_hash_set_default_objc ::
  "nat \<Rightarrow> VALUE \<Rightarrow> 'u objc_world \<Rightarrow> (error + VALUE) \<times> 'u objc_world" where
  "rb_hash_set_default_objc hash ifnone' w =
     (case rb_hash_modify_check_objc hash w of
        Some e \<Rightarrow> (Inl e, w)
      | None \<Rightarrow> (Inr ifnone', rb_objc_hash_set_struct hash ifnone' False w))"

subsection \<open>Reading and writing\<close>

definition rb_hash_aref_objc ::
  "(VALUE \<Rightarrow> 'u objc_block) \<Rightarrow> nat \<Rightarrow> VALUE \<Rightarrow> 'u objc_world \<Rightarrow> (error + VALUE) \<times> 'u objc_world" where
  "rb_hash_aref_objc Y hash key w =
     (case CFDictionaryGetValueIfPresent (objs w hash) key of
        None \<Rightarrow> rb_hash_default_objc Y [key] hash w
      | Some val \<Rightarrow> (Inr val, w))"


definition rb_hash_has_key_objc :: "nat \<Rightarrow> VALUE \<Rightarrow> 'u objc_world \<Rightarrow> VALUE" where
  "rb_hash_has_key_objc hash key w =
     (if CFDictionaryContainsKey (objs w hash) key then Qtrue else Qfalse)"

definition rb_hash_aset_objc ::
  "nat \<Rightarrow> VALUE \<Rightarrow> VALUE \<Rightarrow> 'u objc_world \<Rightarrow> (error + VALUE) \<times> 'u objc_world" where
  "rb_hash_aset_objc hash key val w =
     (case rb_hash_modify_check_objc hash w of
        Some e \<Rightarrow> (Inl e, w)
      | None \<Rightarrow> (Inr val, upd_obj hash (\<lambda>d. CFDictionarySetValue d key val) w))"

text \<open>\<open>rb_hash_delete_key\<close> takes the pair out of the dictionary at once.\<close>

definition rb_hash_delete_key :: "nat \<Rightarrow> VALUE \<Rightarrow> 'u objc_world \<Rightarrow> VALUE \<times> 'u objc_world" where
  "rb_hash_delete_key hash key w =
     (case CFDictionaryGetValueIfPresent (objs w hash) key of
        Some val \<Rightarrow> (val, upd_obj hash (\<lambda>d. CFDictionaryRemoveValue d key) w)
      | None \<Rightarrow> (Qundef, w))"

definition rb_hash_delete ::
  "'u objc_block option \<Rightarrow> nat \<Rightarrow> VALUE \<Rightarrow> 'u objc_world \<Rightarrow> (error + VALUE) \<times> 'u objc_world" where
  "rb_hash_delete blk hash key w =
     (case rb_hash_modify_check_objc hash w of
        Some e \<Rightarrow> (Inl e, w)
      | None \<Rightarrow>
          (case rb_hash_delete_key hash key w of
             (val, w') \<Rightarrow>
               if val \<noteq> Qundef then (Inr val, w')
               else (case blk of Some b \<Rightarrow> b [key] w' | None \<Rightarrow> (Inr Qnil, w'))))"

definition delete_if_i :: "'u objc_block \<Rightarrow> ('u, nat) objc_foreach_func" where
  "delete_if_i blk key val hash w =
     (if key = Qundef then (Inr (ST_CONTINUE, hash), w)
      else
        (case blk [key, val] w of
           (Inl e, w') \<Rightarrow> (Inl e, w')
         | (Inr r, w') \<Rightarrow>
             if RTEST r then (Inr (ST_CONTINUE, hash), snd (rb_hash_delete_key hash key w'))
             else (Inr (ST_CONTINUE, hash), w')))"

definition rb_hash_delete_if ::
  "cf_order \<Rightarrow> 'u objc_block option \<Rightarrow> nat \<Rightarrow> 'u objc_world \<Rightarrow> (error + VALUE) \<times> 'u objc_world" where
  "rb_hash_delete_if E blk hash w =
     (case blk of
        None \<Rightarrow> (Inr (Enumerator (Hash hash) ''delete_if''), w)
      | Some b \<Rightarrow>
          (case rb_hash_modify_check_objc hash w of
             Some e \<Rightarrow> (Inl e, w)
           | None \<Rightarrow>
               (case rb_hash_foreach_objc E hash (delete_if_i b) hash w of
                  (Inl e, w') \<Rightarrow> (Inl e, w')
                | (Inr _, w') \<Rightarrow> (Inr (Hash hash), w'))))"

text \<open>\<open>rb_hash_rehash\<close> copies keys and values out, empties the dictionary and sets
  the pairs again. It asks whether the hash may be modified and nothing else.\<close>

definition rb_hash_rehash :: "cf_order \<Rightarrow> nat \<Rightarrow> 'u objc_world \<Rightarrow> (error + VALUE) \<times> 'u objc_world" where
  "rb_hash_rehash E hash w =
     (case rb_hash_modify_check_objc hash w of
        Some e \<Rightarrow> (Inl e, w)
      | None \<Rightarrow>
          if CFDictionaryGetCount (objs w hash) = 0 then (Inr (Hash hash), w)
          else
            (Inr (Hash hash),
             upd_obj hash
               (\<lambda>d. foldl (\<lambda>d' (k, v). CFDictionarySetValue d' k v)
                       (CFDictionaryRemoveAllValues d) (CFDictionaryGetKeysAndValues E d)) w))"

subsection \<open>Enumerations\<close>








definition yield_i ::
  "'u objc_block \<Rightarrow> VALUE list \<Rightarrow> 'u objc_world \<Rightarrow> (error + st_retval \<times> unit) \<times> 'u objc_world" where
  "yield_i blk args w =
     (case blk args w of
        (Inl e, w') \<Rightarrow> (Inl e, w')
      | (Inr _, w') \<Rightarrow> (Inr (ST_CONTINUE, ()), w'))"



definition each_pair_i :: "'u objc_block \<Rightarrow> ('u, unit) objc_foreach_func" where
  "each_pair_i blk key val a w =
     (if key = Qundef then (Inr (ST_CONTINUE, ()), w) else yield_i blk [Array [key, val]] w)"

definition each_with ::
  "string \<Rightarrow> ('u objc_block \<Rightarrow> ('u, unit) objc_foreach_func) \<Rightarrow> cf_order \<Rightarrow> 'u objc_block option
     \<Rightarrow> nat \<Rightarrow> 'u objc_world \<Rightarrow> (error + VALUE) \<times> 'u objc_world" where
  "each_with name f E blk hash w =
     (case blk of
        None \<Rightarrow> (Inr (Enumerator (Hash hash) name), w)
      | Some b \<Rightarrow>
          (case rb_hash_foreach_objc E hash (f b) () w of
             (Inl e, w') \<Rightarrow> (Inl e, w')
           | (Inr _, w') \<Rightarrow> (Inr (Hash hash), w')))"



definition rb_hash_each_pair ::
  "cf_order \<Rightarrow> 'u objc_block option \<Rightarrow> nat \<Rightarrow> 'u objc_world \<Rightarrow> (error + VALUE) \<times> 'u objc_world" where
  "rb_hash_each_pair = each_with ''each_pair'' each_pair_i"

subsection \<open>Merging\<close>

definition rb_hash_update_i_objc :: "('u, nat) objc_foreach_func" where
  "rb_hash_update_i_objc key val hash w =
     (if key = Qundef then (Inr (ST_CONTINUE, hash), w)
      else
        (case rb_hash_aset_objc hash key val w of
           (Inl e, w') \<Rightarrow> (Inl e, w')
         | (Inr _, w') \<Rightarrow> (Inr (ST_CONTINUE, hash), w')))"

definition rb_hash_update_block_i_objc ::
  "(VALUE \<Rightarrow> 'u objc_block) \<Rightarrow> 'u objc_block \<Rightarrow> ('u, nat) objc_foreach_func" where
  "rb_hash_update_block_i_objc Y blk key val hash w =
     (if key = Qundef then (Inr (ST_CONTINUE, hash), w)
      else
        (case (if rb_hash_has_key_objc hash key w \<noteq> Qfalse then
                 (case rb_hash_aref_objc Y hash key w of
                    (Inl e, w1) \<Rightarrow> (Inl e, w1)
                  | (Inr old, w1) \<Rightarrow> blk [key, old, val] w1)
               else (Inr val, w)) of
           (Inl e, w2) \<Rightarrow> (Inl e, w2)
         | (Inr val', w2) \<Rightarrow>
             (case rb_hash_aset_objc hash key val' w2 of
                (Inl e, w3) \<Rightarrow> (Inl e, w3)
              | (Inr _, w3) \<Rightarrow> (Inr (ST_CONTINUE, hash), w3))))"

definition rb_hash_update_objc ::
  "cf_order \<Rightarrow> (VALUE \<Rightarrow> 'u objc_block) \<Rightarrow> 'u objc_block option \<Rightarrow> nat \<Rightarrow> VALUE \<Rightarrow> 'u objc_world
     \<Rightarrow> (error + VALUE) \<times> 'u objc_world" where
  "rb_hash_update_objc E Y blk hash1 hash2 w =
     (case to_hash hash2 of
        Inl e \<Rightarrow> (Inl e, w)
      | Inr h2 \<Rightarrow>
          (case (case blk of
                   Some b \<Rightarrow> rb_hash_foreach_objc E h2 (rb_hash_update_block_i_objc Y b) hash1 w
                 | None \<Rightarrow> rb_hash_foreach_objc E h2 rb_hash_update_i_objc hash1 w) of
             (Inl e, w') \<Rightarrow> (Inl e, w')
           | (Inr _, w') \<Rightarrow> (Inr (Hash hash1), w')))"

definition rb_hash_merge ::
  "cf_order \<Rightarrow> (VALUE \<Rightarrow> 'u objc_block) \<Rightarrow> 'u objc_block option \<Rightarrow> nat \<Rightarrow> VALUE \<Rightarrow> 'u objc_world
     \<Rightarrow> (error + VALUE) \<times> 'u objc_world" where
  "rb_hash_merge E Y blk hash1 hash2 w =
     (case rb_hash_dup hash1 w of (dup, w1) \<Rightarrow> rb_hash_update_objc E Y blk dup hash2 w1)"

section \<open>Vocabulary of the specification\<close>



text \<open>A store to start from: nothing allocated, safe level 0, an empty environment.\<close>

definition boot :: "unit world" where
  "boot = \<lparr>hashes = (\<lambda>_. new_RHash), next_addr = 0, safe_level = 0, environ = [],
            path_tainted = - 1, warnings = [], user = ()\<rparr>"

text \<open>A block for the environment view, the Ruby
  \<^verbatim>\<open>{ |k, v| seen << k; ENV.delete(k); true }\<close>: it notes the name it is given
  in \<open>user\<close>, deletes that variable and answers true. \<open>abc_world\<close> is a store whose
  environment holds \<open>A\<close>, \<open>B\<close> and \<open>C\<close>.\<close>

definition delete_seen :: "(VALUE list) block" where
  "delete_seen args w =
     (case args of
        [] \<Rightarrow> (Inr Qnil, w)
      | k # _ \<Rightarrow>
          (case env_delete k (w\<lparr>user := user w @ [k]\<rparr>) of
             (Inl e, w') \<Rightarrow> (Inl e, w')
           | (Inr _, w') \<Rightarrow> (Inr Qtrue, w')))"

definition abc_world :: "(VALUE list) world" where
  "abc_world = \<lparr>hashes = (\<lambda>_. new_RHash), next_addr = 0, safe_level = 0,
     environ = [''A=1'', ''B=2'', ''C=3''], path_tainted = - 1, warnings = [], user = []\<rparr>"

text \<open>\<open>quiet\<close>: no traversal has left the deletion flag behind at depth 0.\<close>

definition quiet :: "RHash \<Rightarrow> bool" where
  "quiet h = (\<not> (iter_lev h = 0 \<and> hash_deleted h))"

text \<open>\<^verbatim>\<open>rb_hash_freeze\<close> is \<^verbatim>\<open>rb_obj_freeze\<close>, which sets \<^verbatim>\<open>FL_FREEZE\<close>.
  \<open>frozen_world\<close> holds the frozen hash \<open>{a: 1}\<close> at address 0 and the empty hash
  \<open>{}\<close> at address 2.\<close>

definition rb_hash_freeze :: "nat \<Rightarrow> 'u world \<Rightarrow> 'u world" where
  "rb_hash_freeze hash w = upd_hash hash (\<lambda>h. h\<lparr>fl_freeze := True\<rparr>) w"

definition frozen_world :: "unit world" where
  "frozen_world =
     (case hash_alloc boot of
        (a, w1) \<Rightarrow>
          snd (hash_alloc (rb_hash_freeze a (snd (rb_hash_aset a (Symbol ''a'') (Fixnum 1) w1)))))"


fun set_calls_objc :: "nat \<Rightarrow> (VALUE \<times> VALUE) list \<Rightarrow> 'u objc_world \<Rightarrow> 'u objc_world" where
  "set_calls_objc m [] w = w"
| "set_calls_objc m ((k, v) # kvs) w = set_calls_objc m kvs (snd (rb_hash_aset_objc m k v w))"




definition rehash_block :: "cf_order \<Rightarrow> nat \<Rightarrow> (VALUE list) objc_block" where
  "rehash_block E hash args w = rb_hash_rehash E hash (w\<lparr>ustate := ustate w @ args\<rparr>)"


fun sizes ::
  "(VALUE \<Rightarrow> VALUE \<Rightarrow> VALUE option) \<Rightarrow> (VALUE \<times> VALUE) list \<Rightarrow> (VALUE \<times> VALUE) list
     \<Rightarrow> int list" where
  "sizes q [] cur = []"
| "sizes q ((k, v) # es) cur =
     int (length cur)
       # sizes q es (case q k v of None \<Rightarrow> cur | Some d \<Rightarrow> filter (\<lambda>(k', v'). k' \<noteq> d) cur)"

text \<open>
  Merging as the specification words it: the other map's entries in their order, a
  key that is present resolved by the resolver (given the key, the existing and the
  incoming value) or overwritten, a key that is not appended. \<open>merge_calls\<close> lists
  the calls of the resolver this makes, \<open>resolve r\<close> is the block of the resolver
  \<open>r\<close>, which notes each call it gets in \<open>ustate\<close>.
\<close>

type_synonym resolver = "VALUE \<Rightarrow> VALUE \<Rightarrow> VALUE \<Rightarrow> VALUE"

definition merge_step ::
  "resolver option \<Rightarrow> (VALUE \<times> VALUE) list \<Rightarrow> VALUE \<times> VALUE \<Rightarrow> (VALUE \<times> VALUE) list" where
  "merge_step r es kv =
     (case map_of es (fst kv) of
        Some old \<Rightarrow>
          map (\<lambda>(k', v'). if k' = fst kv
                 then (k', case r of Some f \<Rightarrow> f (fst kv) old (snd kv) | None \<Rightarrow> snd kv)
                 else (k', v')) es
      | None \<Rightarrow> es @ [kv])"

definition merge_entries ::
  "resolver option \<Rightarrow> (VALUE \<times> VALUE) list \<Rightarrow> (VALUE \<times> VALUE) list \<Rightarrow> (VALUE \<times> VALUE) list" where
  "merge_entries r es kvs = foldl (merge_step r) es kvs"

fun merge_calls ::
  "resolver option \<Rightarrow> (VALUE \<times> VALUE) list \<Rightarrow> (VALUE \<times> VALUE) list \<Rightarrow> VALUE list" where
  "merge_calls r es [] = []"
| "merge_calls r es ((k, v) # kvs) =
     (case (r, map_of es k) of
        (Some f, Some old) \<Rightarrow> [Array [k, old, v]]
      | _ \<Rightarrow> [])
     @ merge_calls r (merge_step r es (k, v)) kvs"

definition resolve :: "resolver \<Rightarrow> (VALUE list) objc_block" where
  "resolve r args w =
     (case args of
        [key, old, new] \<Rightarrow> (Inr (r key old new), w\<lparr>ustate := ustate w @ [Array args]\<rparr>)
      | _ \<Rightarrow> (Inr Qnil, w))"

definition keep_old :: resolver where
  "keep_old key old new = old"

text \<open>
  Stores. \<open>boot_objc\<close> has nothing allocated and safe level 0. \<open>h3_objc\<close> holds
  \<open>{a: 1, b: 2, c: 3}\<close> at address 0; \<open>p5_objc\<close> holds \<open>{a: 1, b: 2}\<close> at address 0
  and \<open>{b: 3, c: 4}\<close> at address 1; \<open>proc_objc\<close> holds a hash made with a block,
  the procedure \<open>Proc 7\<close>; \<open>proc_world\<close> is the same over st tables.
\<close>

definition boot_objc :: "(VALUE list) objc_world" where
  "boot_objc = \<lparr>objs = (\<lambda>_. CFDictionaryCreateMutable), next_obj = 0, rb_safe_level = 0,
                 ustate = []\<rparr>"

definition h3_objc :: "(VALUE list) objc_world" where
  "h3_objc =
     (case hash_alloc_objc boot_objc of
        (a, w1) \<Rightarrow>
          set_calls_objc a
            [(Symbol ''a'', Fixnum 1), (Symbol ''b'', Fixnum 2), (Symbol ''c'', Fixnum 3)] w1)"

definition p5_objc :: "(VALUE list) objc_world" where
  "p5_objc =
     (case hash_alloc_objc boot_objc of
        (a, w1) \<Rightarrow>
          (case hash_alloc_objc
                  (set_calls_objc a [(Symbol ''a'', Fixnum 1), (Symbol ''b'', Fixnum 2)] w1) of
             (b, w2) \<Rightarrow>
               set_calls_objc b [(Symbol ''b'', Fixnum 3), (Symbol ''c'', Fixnum 4)] w2))"



section \<open>Properties\<close>

subsection \<open>Lookups and the default value\<close>

lemma EQUAL_iff [simp]: "EQUAL tb x y \<longleftrightarrow> x = y"
  by (cases "tbl_type tb")
     (auto simp add: EQUAL_def rb_any_cmp_def st_numcmp_def rb_str_hash_cmp_def rb_eql_def)











subsection \<open>The environment view\<close>

text \<open>
  C9. \<open>env_select\<close> does not work on a snapshot of the names. In an environment of
  \<open>A\<close>, \<open>B\<close>, \<open>C\<close> (the names \<open>env_keys\<close> lists), with a block that deletes the
  variable it is shown and answers true, \<open>env_select\<close> shows the block \<open>A\<close> and \<open>C\<close>
  only and returns \<open>{A \<mapsto> 1, C \<mapsto> 3}\<close>: \<open>B\<close>, set before, during and after the
  call, is never seen. \<open>env_reject_bang\<close>, which walks the array \<open>env_keys\<close> returned,
  shows the same block all three names.
\<close>

theorem env_select_skips_entry:
  "fst (env_keys abc_world) = Inr [String ''A'', String ''B'', String ''C'']
   \<and> map_option (\<lambda>(r, w). (r, user w, environ w, map_option entries (ntbl (hashes w 0))))
        (env_select (Suc (Suc (Suc n))) (Some delete_seen) abc_world)
      = Some (Inr (Hash 0), [String ''A'', String ''C''], [''B=2''],
              Some [(String ''A'', String ''1''), (String ''C'', String ''3'')])
   \<and> (\<lambda>(r, w). (r, user w, environ w)) (env_reject_bang (Some delete_seen) abc_world)
      = (Inr Envtbl, [String ''A'', String ''B'', String ''C''], [])"
  by (simp add: env_select_def env_reject_bang_def env_keys_def rb_secure_def abc_world_def
        rb_hash_new_def hash_alloc_def rb_f_getenv_def NIL_P_def
        delete_seen_def env_delete_def env_key_def env_val_def strlen_def names_def
        ruby_setenv_def unsetenv_def PATH_ENV_def RTEST_def rb_hash_aset_def rb_hash_modify_def
        rb_hash_modify_check_def rb_hash_tbl_def upd_hash_def upd_tbl_def new_RHash_def
        st_init_table_def st_lookup_def st_insert_def st_add_direct_def rb_str_new4_def Let_def)

text \<open>
  C10, as the code has it. \<open>env_aset\<close> with the value \<open>Qnil\<close> never changes the
  store and never returns normally: it raises the type error that points to
  \<^verbatim>\<open>Hash#delete\<close>, except at safe level 4 and above, where the guard before the
  nil test raises the security error.
\<close>

theorem env_aset_nil_raises:
  "env_aset tainted path_check nm Qnil w =
     (Inl (if safe_level w \<ge> 4
           then Raise eSecurityError ''can't change environment variable''
           else Raise eTypeError ''cannot assign nil; use Hash#delete instead''), w)"
  by (simp add: env_aset_def NIL_P_def)

theorem env_aset_nil_raises_witness:
  "env_aset (\<lambda>_. False) (\<lambda>_. True) (String ''B'') Qnil abc_world =
     (Inl (Raise eTypeError ''cannot assign nil; use Hash#delete instead''), abc_world)
   \<and> getenv (environ abc_world) ''B'' = Some ''2''"
  using env_aset_nil_raises [where tainted = "\<lambda>_. False" and path_check = "\<lambda>_. True"
    and nm = "String ''B''" and w = abc_world]
  by (simp add: abc_world_def names_def)

text \<open>C10 as stated fails at safe level 4: the error is the security error.\<close>

theorem env_aset_nil_counterexample:
  "env_aset (\<lambda>_. False) (\<lambda>_. True) (String ''B'') Qnil (abc_world\<lparr>safe_level := 4\<rparr>) =
     (Inl (Raise eSecurityError ''can't change environment variable''), abc_world\<lparr>safe_level := 4\<rparr>)
   \<and> fst (env_aset (\<lambda>_. False) (\<lambda>_. True) (String ''B'') Qnil (abc_world\<lparr>safe_level := 4\<rparr>))
      \<noteq> Inl (Raise eTypeError ''cannot assign nil; use Hash#delete instead'')"
  by (simp add: env_aset_def NIL_P_def)

subsection \<open>Frozen hashes\<close>

lemma frozen_world_eq:
  "frozen_world = \<lparr>hashes = (\<lambda>_. new_RHash)(0 := new_RHash\<lparr>fl_freeze := True,
       ntbl := Some \<lparr>tbl_addr = 1, tbl_type = objhash, entries = [(Symbol ''a'', Fixnum 1)],
                     num_entries = 1, generation = 0\<rparr>\<rparr>, 2 := new_RHash),
     next_addr = 3, safe_level = 0, environ = [], path_tainted = - 1, warnings = [], user = ()\<rparr>"
  by (simp add: frozen_world_def hash_alloc_def boot_def rb_hash_freeze_def rb_hash_aset_def
        rb_hash_modify_def rb_hash_modify_check_def rb_hash_tbl_def upd_hash_def upd_tbl_def
        new_RHash_def st_init_table_def st_insert_def st_lookup_def st_add_direct_def
        numeral_2_eq_2 numeral_3_eq_3)

lemma frozen_refuses:
  assumes "fl_freeze (hashes w hash)"
  shows "rb_hash_aset hash key val w = (Inl (rb_error_frozen ''hash''), w)"
    and "rb_hash_clear n hash w = Some (Inl (rb_error_frozen ''hash''), w)"
    and "rb_hash_set_default hash val w = (Inl (rb_error_frozen ''hash''), w)"
    and "hash \<noteq> h2 \<Longrightarrow> rb_hash_replace n hash (Hash h2) w = Some (Inl (rb_error_frozen ''hash''), w)"
  using assms
  by (simp_all add: rb_hash_aset_def rb_hash_clear_def rb_hash_set_default_def
        rb_hash_replace_def rb_hash_modify_def rb_hash_modify_check_def)

lemma ensure_inc:
  assumes "quiet (hashes w h)"
  shows "hash_foreach_ensure h (upd_hash h (\<lambda>x. x\<lparr>iter_lev := iter_lev x + 1\<rparr>) w) = w"
  using assms by (auto simp add: hash_foreach_ensure_def upd_hash_def Let_def quiet_def)

lemma frozen_update_refuses:
  assumes fr: "fl_freeze (hashes w h1)"
    and sl: "ntbl (hashes w h2) = Some tb" "entries tb = (k, v) # rest" "k \<noteq> Qundef"
    and q: "quiet (hashes w h2)"
  shows "rb_hash_update (Suc n) Y None h1 (Hash h2) w = Some (Inl (rb_error_frozen ''hash''), w)"
proof -
  let ?w = "upd_hash h2 (\<lambda>x. x\<lparr>iter_lev := iter_lev x + 1\<rparr>) w"
  have f: "fl_freeze (hashes ?w h1)" using fr by (auto simp add: upd_hash_def)
  have a: "rb_hash_update_i k v h1 ?w = (Inl (rb_error_frozen ''hash''), ?w)"
    using f sl(3) by (simp add: rb_hash_update_i_def rb_hash_aset_def rb_hash_modify_def
        rb_hash_modify_check_def)
  have t: "ntbl (hashes ?w h2) = Some tb" using sl(1) by (simp add: upd_hash_def)
  have s: "st_foreach (Suc n) h2 (hash_foreach_iter h2 rb_hash_update_i) h1 0 ?w
             = Some (Inl (rb_error_frozen ''hash''), ?w)"
    using a t sl(2,3) by (simp add: hash_foreach_iter_def)
  have e: "hash_foreach_ensure h2 ?w = w" using ensure_inc [OF q] .
  show ?thesis
    using s e sl(1)
    by (simp add: rb_hash_update_def rb_hash_foreach_def hash_foreach_call_def)
qed

text \<open>
  C6, at the input where the code departs from it. On the frozen hash \<open>{a: 1}\<close>,
  \<open>merge!\<close> with the empty hash \<open>{}\<close> (with or without a block) and \<open>replace\<close> with
  the hash itself return the hash and raise nothing, where \<open>[]=\<close> on the same hash
  raises the frozen-state error. The store is the same after each of them.
\<close>

theorem frozen_merge_empty_no_error:
  "fl_freeze (hashes frozen_world 0)
   \<and> rb_hash_size 0 frozen_world = Fixnum 1
   \<and> rb_hash_size 2 frozen_world = Fixnum 0
   \<and> rb_hash_update n Y None 0 (Hash 2) frozen_world = Some (Inr (Hash 0), frozen_world)
   \<and> rb_hash_update n Y (Some b) 0 (Hash 2) frozen_world = Some (Inr (Hash 0), frozen_world)
   \<and> rb_hash_replace n 0 (Hash 0) frozen_world = Some (Inr (Hash 0), frozen_world)
   \<and> rb_hash_aset 0 (Symbol ''b'') (Fixnum 2) frozen_world
        = (Inl (rb_error_frozen ''hash''), frozen_world)"
  by (simp add: frozen_world_eq rb_hash_size_def rb_hash_update_def rb_hash_foreach_def
        rb_hash_replace_def rb_hash_aset_def rb_hash_modify_def rb_hash_modify_check_def
        new_RHash_def)

theorem frozen_merge_empty_no_error_witness:
  "fl_freeze (hashes frozen_world 0)
   \<and> rb_hash_update 1 (\<lambda>p args w. (Inr Qnil, w)) None 0 (Hash 2) frozen_world
        = Some (Inr (Hash 0), frozen_world)
   \<and> rb_hash_aset 0 (Symbol ''b'') (Fixnum 2) frozen_world
        = (Inl (rb_error_frozen ''hash''), frozen_world)"
  using frozen_merge_empty_no_error [where n = 1 and Y = "\<lambda>p args w. (Inr Qnil, w)"
    and b = "\<lambda>args w. (Inr Qnil, w)"]
  by simp

section \<open>Properties of the engine over CoreFoundation dictionaries\<close>

subsection \<open>Rehashing\<close>

lemma set_value_fields [simp]:
  "cf_mutable (CFDictionarySetValue d k v) = cf_mutable d"
  "mask_freeze (CFDictionarySetValue d k v) = mask_freeze d"
  "mask_taint (CFDictionarySetValue d k v) = mask_taint d"
  "hash_struct (CFDictionarySetValue d k v) = hash_struct d"
  by (simp_all add: CFDictionarySetValue_def)

lemma set_values_fields [simp]:
  "cf_mutable (foldl (\<lambda>d' (k, v). CFDictionarySetValue d' k v) d es) = cf_mutable d"
  "mask_freeze (foldl (\<lambda>d' (k, v). CFDictionarySetValue d' k v) d es) = mask_freeze d"
  "mask_taint (foldl (\<lambda>d' (k, v). CFDictionarySetValue d' k v) d es) = mask_taint d"
  "hash_struct (foldl (\<lambda>d' (k, v). CFDictionarySetValue d' k v) d es) = hash_struct d"
  by (induction es arbitrary: d; simp add: case_prod_unfold)+

lemma modify_check_objc_cong:
  assumes "cf_mutable (objs w' h) = cf_mutable (objs w h)"
    "mask_freeze (objs w' h) = mask_freeze (objs w h)"
    "mask_taint (objs w' h) = mask_taint (objs w h)"
    "rb_safe_level w' = rb_safe_level w"
  shows "rb_hash_modify_check_objc h w' = rb_hash_modify_check_objc h w"
  using assms by (simp add: rb_hash_modify_check_objc_def Let_def)

lemma rehash_result:
  "fst (rb_hash_rehash E h w) =
     (case rb_hash_modify_check_objc h w of Some e \<Rightarrow> Inl e | None \<Rightarrow> Inr (Hash h))"
  by (simp add: rb_hash_rehash_def split: option.splits)

lemma rehash_frame:
  "rb_hash_modify_check_objc h' (snd (rb_hash_rehash E h w)) = rb_hash_modify_check_objc h' w"
  "ustate (snd (rb_hash_rehash E h w)) = ustate w"
  by (auto simp add: rb_hash_rehash_def upd_obj_def rb_hash_modify_check_objc_def Let_def
        CFDictionaryRemoveAllValues_def split: option.splits)

lemma set_values_fresh:
  "distinct (map fst es) \<Longrightarrow> fst ` set es \<inter> fst ` set (cf_pairs d) = {} \<Longrightarrow>
   cf_pairs (foldl (\<lambda>d' (k, v). CFDictionarySetValue d' k v) d es) = cf_pairs d @ es"
proof (induction es arbitrary: d)
  case Nil
  then show ?case by simp
next
  case (Cons e es)
  obtain k v where e: "e = (k, v)" by (cases e)
  have n: "map_of (cf_pairs d) k = None"
    using Cons.prems(2) e by (auto simp add: map_of_eq_None_iff)
  have p: "cf_pairs (CFDictionarySetValue d k v) = cf_pairs d @ [(k, v)]"
    using n by (simp add: CFDictionarySetValue_def)
  have "cf_pairs (foldl (\<lambda>d' (k, v). CFDictionarySetValue d' k v) (CFDictionarySetValue d k v) es)
          = cf_pairs (CFDictionarySetValue d k v) @ es"
    by (rule Cons.IH) (use Cons.prems e p in auto)
  then show ?case using e p by simp
qed

lemma rehash_rebuilds:
  assumes "rb_hash_modify_check_objc h w = None" "cf_pairs (objs w h) \<noteq> []"
    "distinct (map fst (E (cf_pairs (objs w h))))"
  shows "cf_pairs (objs (snd (rb_hash_rehash E h w)) h) = E (cf_pairs (objs w h))"
  using assms set_values_fresh [of "E (cf_pairs (objs w h))" "CFDictionaryRemoveAllValues (objs w h)"]
  by (simp add: rb_hash_rehash_def upd_obj_def CFDictionaryGetCount_def
        CFDictionaryGetKeysAndValues_def CFDictionaryRemoveAllValues_def)

lemma each_rehash_loop:
  fixes w :: "(VALUE list) objc_world"
  shows "rb_hash_modify_check_objc h w = None \<Longrightarrow> Qundef \<notin> fst ` set es \<Longrightarrow>
    \<exists>w'. foreach_loop (each_pair_i (rehash_block E h)) es () w = (Inr (), w')
        \<and> ustate w' = ustate w @ map (\<lambda>(k, v). Array [k, v]) es
        \<and> rb_hash_modify_check_objc h w' = None"
proof (induction es arbitrary: w)
  case Nil
  then show ?case by simp
next
  case (Cons e es)
  obtain k v where e: "e = (k, v)" by (cases e)
  let ?w0 = "w\<lparr>ustate := ustate w @ [Array [k, v]]\<rparr>"
  have "rb_hash_modify_check_objc h ?w0 = rb_hash_modify_check_objc h w"
    by (rule modify_check_objc_cong) simp_all
  then have c0: "rb_hash_modify_check_objc h ?w0 = None"
    using Cons.prems(1) by simp
  obtain w1 where r: "rb_hash_rehash E h ?w0 = (Inr (Hash h), w1)"
    using rehash_result [of E h ?w0] c0 by (cases "rb_hash_rehash E h ?w0") simp
  have k: "k \<noteq> Qundef" using Cons.prems(2) e by auto
  have step: "each_pair_i (rehash_block E h) k v () w = (Inr (ST_CONTINUE, ()), w1)"
    using k r by (simp add: each_pair_i_def yield_i_def rehash_block_def)
  have c1: "rb_hash_modify_check_objc h w1 = None"
    using c0 rehash_frame(1) [of h E h ?w0] r by simp
  have u1: "ustate w1 = ustate w @ [Array [k, v]]"
    using rehash_frame(2) [of E h ?w0] r by simp
  have q: "Qundef \<notin> fst ` set es" using Cons.prems(2) by auto
  from Cons.IH [OF c1 q] show ?case
    unfolding e using step u1 by auto
qed


lemma h3_objc_facts:
  "cf_pairs (objs h3_objc 0) =
     [(Symbol ''a'', Fixnum 1), (Symbol ''b'', Fixnum 2), (Symbol ''c'', Fixnum 3)]"
  "rb_hash_modify_check_objc 0 h3_objc = None" "ustate h3_objc = []"
  by (simp_all add: h3_objc_def hash_alloc_objc_def boot_objc_def rb_hash_aset_objc_def
        rb_hash_modify_check_objc_def Let_def upd_obj_def CFDictionaryCreateMutable_def
        CFDictionarySetValue_def)

text \<open>
  C5. A rehash asked for while the hash is being walked is neither refused nor
  noticed by the walk. \<open>rb_hash_rehash\<close> raises what \<open>rb_hash_modify_check\<close> raises
  and nothing else; where the hash may be modified it answers the hash, and a
  dictionary that is not empty is emptied and filled again with its pairs in the
  order they were reported. An \<^verbatim>\<open>each_pair\<close> whose block rehashes the hash at every
  call returns the hash, having called the block on every pair of the copy taken
  when it started. The comment above \<open>rb_hash_rehash\<close> promises a
  \<^verbatim>\<open>RuntimeError\<close> in the iterator.
\<close>

theorem rehash_during_traversal_undetected:
  fixes w :: "(VALUE list) objc_world"
  shows
  "fst (rb_hash_rehash E h w) =
     (case rb_hash_modify_check_objc h w of Some e \<Rightarrow> Inl e | None \<Rightarrow> Inr (Hash h))
   \<and> (rb_hash_modify_check_objc h w = None \<and> cf_pairs (objs w h) \<noteq> []
      \<and> distinct (map fst (E (cf_pairs (objs w h))))
    \<longrightarrow> cf_pairs (objs (snd (rb_hash_rehash E h w)) h) = E (cf_pairs (objs w h)))
   \<and> (rb_hash_modify_check_objc h w = None
      \<and> Qundef \<notin> fst ` set (E (cf_pairs (objs w h)))
      \<and> length (E (cf_pairs (objs w h))) = length (cf_pairs (objs w h))
    \<longrightarrow> (\<exists>w'. rb_hash_each_pair E (Some (rehash_block E h)) h w = (Inr (Hash h), w')
          \<and> ustate w' = ustate w @ map (\<lambda>(k, v). Array [k, v]) (E (cf_pairs (objs w h)))))"
proof (intro conjI impI)
  show "fst (rb_hash_rehash E h w) =
     (case rb_hash_modify_check_objc h w of Some e \<Rightarrow> Inl e | None \<Rightarrow> Inr (Hash h))"
    by (rule rehash_result)
next
  assume "rb_hash_modify_check_objc h w = None \<and> cf_pairs (objs w h) \<noteq> []
      \<and> distinct (map fst (E (cf_pairs (objs w h))))"
  then show "cf_pairs (objs (snd (rb_hash_rehash E h w)) h) = E (cf_pairs (objs w h))"
    by (simp add: rehash_rebuilds)
next
  assume a: "rb_hash_modify_check_objc h w = None
      \<and> Qundef \<notin> fst ` set (E (cf_pairs (objs w h)))
      \<and> length (E (cf_pairs (objs w h))) = length (cf_pairs (objs w h))"
  then have c: "rb_hash_modify_check_objc h w = None"
    and q: "Qundef \<notin> fst ` set (E (cf_pairs (objs w h)))"
    and l: "length (E (cf_pairs (objs w h))) = length (cf_pairs (objs w h))"
    by simp_all
  obtain w' where
    run: "foreach_loop (each_pair_i (rehash_block E h)) (E (cf_pairs (objs w h))) () w = (Inr (), w')"
    and us: "ustate w' = ustate w @ map (\<lambda>(k, v). Array [k, v]) (E (cf_pairs (objs w h)))"
    using each_rehash_loop [OF c q, of E] by blast
  show "\<exists>w'. rb_hash_each_pair E (Some (rehash_block E h)) h w = (Inr (Hash h), w')
          \<and> ustate w' = ustate w @ map (\<lambda>(k, v). Array [k, v]) (E (cf_pairs (objs w h)))"
  proof (cases "cf_pairs (objs w h) = []")
    case True
    then show ?thesis
      using l by (simp add: rb_hash_each_pair_def each_with_def rb_hash_foreach_objc_def
          CFDictionaryGetCount_def)
  next
    case False
    then show ?thesis
      using run us by (simp add: rb_hash_each_pair_def each_with_def rb_hash_foreach_objc_def
          CFDictionaryGetCount_def CFDictionaryGetKeysAndValues_def)
  qed
qed

theorem rehash_during_traversal_undetected_witness:
  "cf_pairs (objs h3_objc 0) =
     [(Symbol ''a'', Fixnum 1), (Symbol ''b'', Fixnum 2), (Symbol ''c'', Fixnum 3)]
   \<and> fst (rb_hash_rehash rev 0 h3_objc) = Inr (Hash 0)
   \<and> cf_pairs (objs (snd (rb_hash_rehash rev 0 h3_objc)) 0) =
     [(Symbol ''c'', Fixnum 3), (Symbol ''b'', Fixnum 2), (Symbol ''a'', Fixnum 1)]
   \<and> (\<exists>w'. rb_hash_each_pair rev (Some (rehash_block rev 0)) 0 h3_objc = (Inr (Hash 0), w')
          \<and> ustate w' = [Array [Symbol ''c'', Fixnum 3], Array [Symbol ''b'', Fixnum 2],
                          Array [Symbol ''a'', Fixnum 1]])"
  using h3_objc_facts
    rehash_during_traversal_undetected [where E = rev and h = 0 and w = h3_objc]
  by simp

subsection \<open>Deleting while the hash is walked\<close>

lemma remove_absent:
  "map_of ps key = None \<Longrightarrow> filter (\<lambda>(k, v). k \<noteq> key) ps = ps"
  by (induction ps) (auto split: if_splits)





lemma removed_length:
  "distinct (map fst ps) \<Longrightarrow> map_of ps key = Some v \<Longrightarrow>
   length (filter (\<lambda>(k, v). k \<noteq> key) ps) = length ps - 1"
proof (induction ps)
  case Nil
  then show ?case by simp
next
  case (Cons e ps)
  obtain k' v' where e: "e = (k', v')" by (cases e)
  show ?case
  proof (cases "k' = key")
    case True
    then have "map_of ps key = None"
      using Cons.prems(1) e by (auto simp add: map_of_eq_None_iff)
    then show ?thesis using True e by (simp add: remove_absent)
  next
    case False
    then have m: "map_of ps key = Some v" using Cons.prems(2) e by simp
    then have "ps \<noteq> []" by auto
    then show ?thesis using False e Cons.IH m Cons.prems(1) by (cases ps) auto
  qed
qed

lemma sizes_length [simp]: "length (sizes q es cur) = length es"
  by (induction es arbitrary: cur) auto











subsection \<open>The order of the enumerations\<close>

lemma aset_objc_ok:
  assumes "rb_hash_modify_check_objc h w = None"
  shows "rb_hash_aset_objc h k v w = (Inr v, upd_obj h (\<lambda>d. CFDictionarySetValue d k v) w)"
  using assms by (simp add: rb_hash_aset_objc_def)

lemma upd_obj_set_value_frame:
  "rb_hash_modify_check_objc h' (upd_obj h (\<lambda>d. CFDictionarySetValue d k v) w)
     = rb_hash_modify_check_objc h' w"
  "ustate (upd_obj h (\<lambda>d. CFDictionarySetValue d k v) w) = ustate w"
  "next_obj (upd_obj h (\<lambda>d. CFDictionarySetValue d k v) w) = next_obj w"
  "rb_safe_level (upd_obj h (\<lambda>d. CFDictionarySetValue d k v) w) = rb_safe_level w"
  "h' \<noteq> h \<Longrightarrow> objs (upd_obj h (\<lambda>d. CFDictionarySetValue d k v) w) h' = objs w h'"
  "cf_pairs (objs (upd_obj h (\<lambda>d. CFDictionarySetValue d k v) w) h)
     = cf_pairs (CFDictionarySetValue (objs w h) k v)"
  by (auto simp add: upd_obj_def rb_hash_modify_check_objc_def Let_def)








lemma foreach_objc_run:
  assumes "set (E (cf_pairs (objs w h))) = set (cf_pairs (objs w h))"
    and "foreach_loop func [] farg w = (Inr farg, w)"
  shows "rb_hash_foreach_objc E h func farg w = foreach_loop func (E (cf_pairs (objs w h))) farg w"
proof (cases "cf_pairs (objs w h) = []")
  case True
  then have "E (cf_pairs (objs w h)) = []" using assms(1) by simp
  then show ?thesis
    using True by (simp add: rb_hash_foreach_objc_def CFDictionaryGetCount_def)
next
  case False
  then show ?thesis
    by (simp add: rb_hash_foreach_objc_def CFDictionaryGetCount_def
        CFDictionaryGetKeysAndValues_def)
qed






subsection \<open>Merging\<close>

lemma set_value_merge_step:
  "cf_pairs (CFDictionarySetValue d k (case map_of (cf_pairs d) k of
                                         Some old \<Rightarrow> (case r of Some f \<Rightarrow> f k old v | None \<Rightarrow> v)
                                       | None \<Rightarrow> v))
     = merge_step r (cf_pairs d) (k, v)"
  by (auto simp add: CFDictionarySetValue_def merge_step_def split: option.splits)

lemma update_block_step:
  fixes w :: "(VALUE list) objc_world"
  assumes c: "rb_hash_modify_check_objc d w = None" and k: "k \<noteq> Qundef"
  shows "\<exists>w1. rb_hash_update_block_i_objc Y (resolve f) k v d w = (Inr (ST_CONTINUE, d), w1)
      \<and> cf_pairs (objs w1 d) = merge_step (Some f) (cf_pairs (objs w d)) (k, v)
      \<and> ustate w1 = ustate w @ (case map_of (cf_pairs (objs w d)) k of
                                   Some old \<Rightarrow> [Array [k, old, v]] | None \<Rightarrow> [])
      \<and> rb_hash_modify_check_objc d w1 = None
      \<and> (\<forall>h'. h' \<noteq> d \<longrightarrow> objs w1 h' = objs w h')"
proof (cases "map_of (cf_pairs (objs w d)) k")
  case None
  then show ?thesis
    using c k set_value_merge_step [where d = "objs w d" and k = k and r = "Some f" and v = v]
    by (simp add: rb_hash_update_block_i_objc_def rb_hash_has_key_objc_def
        CFDictionaryContainsKey_def aset_objc_ok upd_obj_set_value_frame)
next
  case (Some old)
  let ?w0 = "w\<lparr>ustate := ustate w @ [Array [k, old, v]]\<rparr>"
  have c0: "rb_hash_modify_check_objc d ?w0 = None"
    using c modify_check_objc_cong [of ?w0 d w] by simp
  have a: "rb_hash_aset_objc d k (f k old v) ?w0
        = (Inr (f k old v), upd_obj d (\<lambda>x. CFDictionarySetValue x k (f k old v)) ?w0)"
    by (rule aset_objc_ok [OF c0])
  have s: "rb_hash_update_block_i_objc Y (resolve f) k v d w
        = (Inr (ST_CONTINUE, d), upd_obj d (\<lambda>x. CFDictionarySetValue x k (f k old v)) ?w0)"
    using k Some a
    by (simp add: rb_hash_update_block_i_objc_def rb_hash_has_key_objc_def
        CFDictionaryContainsKey_def rb_hash_aref_objc_def CFDictionaryGetValueIfPresent_def
        resolve_def)
  show ?thesis
    unfolding s using Some c0 set_value_merge_step [where d = "objs w d" and k = k and r = "Some f" and v = v]
    by (simp add: upd_obj_set_value_frame)
qed

lemma update_block_loop:
  fixes w :: "(VALUE list) objc_world"
  shows "rb_hash_modify_check_objc d w = None \<Longrightarrow> Qundef \<notin> fst ` set es \<Longrightarrow>
    \<exists>w'. foreach_loop (rb_hash_update_block_i_objc Y (resolve f)) es d w = (Inr d, w')
        \<and> cf_pairs (objs w' d) = merge_entries (Some f) (cf_pairs (objs w d)) es
        \<and> ustate w' = ustate w @ merge_calls (Some f) (cf_pairs (objs w d)) es
        \<and> (\<forall>h'. h' \<noteq> d \<longrightarrow> objs w' h' = objs w h')"
proof (induction es arbitrary: w)
  case Nil
  then show ?case by (simp add: merge_entries_def)
next
  case (Cons e es)
  obtain k v where e: "e = (k, v)" by (cases e)
  have k: "k \<noteq> Qundef" using Cons.prems(2) e by auto
  have q: "Qundef \<notin> fst ` set es" using Cons.prems(2) by auto
  obtain w1 where
    step: "rb_hash_update_block_i_objc Y (resolve f) k v d w = (Inr (ST_CONTINUE, d), w1)"
    and p1: "cf_pairs (objs w1 d) = merge_step (Some f) (cf_pairs (objs w d)) (k, v)"
    and u1: "ustate w1 = ustate w @ (case map_of (cf_pairs (objs w d)) k of
                                   Some old \<Rightarrow> [Array [k, old, v]] | None \<Rightarrow> [])"
    and c1: "rb_hash_modify_check_objc d w1 = None"
    and o1: "\<forall>h'. h' \<noteq> d \<longrightarrow> objs w1 h' = objs w h'"
    using update_block_step [OF Cons.prems(1) k, of Y f v] by blast
  obtain w' where
    l: "foreach_loop (rb_hash_update_block_i_objc Y (resolve f)) es d w1 = (Inr d, w')"
    and p: "cf_pairs (objs w' d) = merge_entries (Some f) (cf_pairs (objs w1 d)) es"
    and u: "ustate w' = ustate w1 @ merge_calls (Some f) (cf_pairs (objs w1 d)) es"
    and o: "\<forall>h'. h' \<noteq> d \<longrightarrow> objs w' h' = objs w1 h'"
    using Cons.IH [OF c1 q] by blast
  show ?case
    unfolding e using step l p u o p1 u1 o1
    by (simp add: merge_entries_def split: option.splits)
qed

lemma update_loop:
  fixes w :: "(VALUE list) objc_world"
  shows "rb_hash_modify_check_objc d w = None \<Longrightarrow> Qundef \<notin> fst ` set es \<Longrightarrow>
    \<exists>w'. foreach_loop rb_hash_update_i_objc es d w = (Inr d, w')
        \<and> cf_pairs (objs w' d) = merge_entries None (cf_pairs (objs w d)) es
        \<and> ustate w' = ustate w @ merge_calls None (cf_pairs (objs w d)) es
        \<and> (\<forall>h'. h' \<noteq> d \<longrightarrow> objs w' h' = objs w h')"
proof (induction es arbitrary: w)
  case Nil
  then show ?case by (simp add: merge_entries_def)
next
  case (Cons e es)
  obtain k v where e: "e = (k, v)" by (cases e)
  have k: "k \<noteq> Qundef" using Cons.prems(2) e by auto
  have q: "Qundef \<notin> fst ` set es" using Cons.prems(2) by auto
  let ?w1 = "upd_obj d (\<lambda>x. CFDictionarySetValue x k v) w"
  have step: "rb_hash_update_i_objc k v d w = (Inr (ST_CONTINUE, d), ?w1)"
    using k Cons.prems(1) by (simp add: rb_hash_update_i_objc_def aset_objc_ok)
  have p1: "cf_pairs (objs ?w1 d) = merge_step None (cf_pairs (objs w d)) (k, v)"
    using set_value_merge_step [where d = "objs w d" and k = k and r = None and v = v]
    by (simp add: upd_obj_set_value_frame split: option.splits)
  have c1: "rb_hash_modify_check_objc d ?w1 = None"
    using Cons.prems(1) by (simp add: upd_obj_set_value_frame)
  obtain w' where
    l: "foreach_loop rb_hash_update_i_objc es d ?w1 = (Inr d, w')"
    and p: "cf_pairs (objs w' d) = merge_entries None (cf_pairs (objs ?w1 d)) es"
    and u: "ustate w' = ustate ?w1 @ merge_calls None (cf_pairs (objs ?w1 d)) es"
    and o: "\<forall>h'. h' \<noteq> d \<longrightarrow> objs w' h' = objs ?w1 h'"
    using Cons.IH [OF c1 q] by blast
  show ?case
    unfolding e using step l p u o p1
    by (simp add: merge_entries_def upd_obj_set_value_frame split: option.splits)
qed

lemma dup_facts:
  fixes w :: "'u objc_world"
  assumes "\<not> (mask_taint (objs w h1) \<and> 4 \<le> rb_safe_level w)"
  shows "fst (rb_hash_dup h1 w) = next_obj w"
    "cf_pairs (objs (snd (rb_hash_dup h1 w)) (next_obj w)) = cf_pairs (objs w h1)"
    "rb_hash_modify_check_objc (next_obj w) (snd (rb_hash_dup h1 w)) = None"
    "ustate (snd (rb_hash_dup h1 w)) = ustate w"
    "h' \<noteq> next_obj w \<Longrightarrow> objs (snd (rb_hash_dup h1 w)) h' = objs w h'"
  using assms
  by (auto simp add: rb_hash_dup_def Let_def CFDictionaryCreateMutableCopy_def
      CFDictionaryCreateMutable_def rb_hash_modify_check_objc_def)


lemma p5_objc_facts:
  "cf_pairs (objs p5_objc 0) = [(Symbol ''a'', Fixnum 1), (Symbol ''b'', Fixnum 2)]"
  "cf_pairs (objs p5_objc 1) = [(Symbol ''b'', Fixnum 3), (Symbol ''c'', Fixnum 4)]"
  "next_obj p5_objc = 2" "mask_taint (objs p5_objc 0) = False" "ustate p5_objc = []"
  by (simp_all add: p5_objc_def hash_alloc_objc_def boot_objc_def rb_hash_aset_objc_def
        rb_hash_modify_check_objc_def Let_def upd_obj_def CFDictionaryCreateMutable_def
        CFDictionarySetValue_def)

text \<open>
  C7. For two allocated hashes whose keys are compared by value, the receiver not
  both tainted and at safe level 4: \<open>rb_hash_merge\<close> answers a new hash, the
  duplicate \<open>rb_hash_dup\<close> makes of the receiver. Its pairs are the receiver's merged
  with the other hash's pairs in the order they are reported: a key that is there
  gets what the resolver answers, or the incoming value when there is no resolver,
  a key that is not is added at the end. The resolver has been called exactly for
  the keys that were there, in that order, each time with the key, the value at hand
  and the incoming value. The receiver and the other hash are as they were.
\<close>

theorem merge_resolves_on_duplicate:
  fixes w :: "(VALUE list) objc_world"
  assumes "rcv < next_obj w" and "other < next_obj w"
    and "\<not> (mask_taint (objs w rcv) \<and> 4 \<le> rb_safe_level w)"
    and "Qundef \<notin> fst ` set (E (cf_pairs (objs w other)))"
    and "set (E (cf_pairs (objs w other))) = set (cf_pairs (objs w other))"
  shows
  "\<exists>w'. rb_hash_merge E Y (map_option resolve r) rcv (Hash other) w = (Inr (Hash (next_obj w)), w')
     \<and> cf_pairs (objs w' (next_obj w))
         = merge_entries r (cf_pairs (objs w rcv)) (E (cf_pairs (objs w other)))
     \<and> ustate w' = ustate w @ merge_calls r (cf_pairs (objs w rcv)) (E (cf_pairs (objs w other)))
     \<and> objs w' rcv = objs w rcv \<and> objs w' other = objs w other"
proof -
  let ?d = "next_obj w"
  define w1 where "w1 = snd (rb_hash_dup rcv w)"
  let ?es = "E (cf_pairs (objs w other))"
  have n1: "rcv \<noteq> ?d" and n2: "other \<noteq> ?d" using assms(1,2) by simp_all
  have dup: "rb_hash_dup rcv w = (?d, w1)"
    using dup_facts(1) [OF assms(3)] unfolding w1_def by (cases "rb_hash_dup rcv w") simp
  have c: "rb_hash_modify_check_objc ?d w1 = None"
    unfolding w1_def by (rule dup_facts(3) [OF assms(3)])
  have p1: "cf_pairs (objs w1 ?d) = cf_pairs (objs w rcv)"
    unfolding w1_def by (rule dup_facts(2) [OF assms(3)])
  have u1: "ustate w1 = ustate w" unfolding w1_def by (rule dup_facts(4) [OF assms(3)])
  have o1: "objs w1 rcv = objs w rcv" "objs w1 other = objs w other"
    unfolding w1_def using dup_facts(5) [OF assms(3)] n1 n2 by simp_all
  have s: "set (E (cf_pairs (objs w1 other))) = set (cf_pairs (objs w1 other))"
    using assms(5) o1(2) by simp
  have run: "rb_hash_foreach_objc E other func ?d w1 = foreach_loop func ?es ?d w1"
    for func :: "(VALUE list, nat) objc_foreach_func"
    using foreach_objc_run [where E = E and w = w1 and h = other and func = func and farg = ?d]
      s o1(2) by simp
  show ?thesis
  proof (cases r)
    case None
    obtain w' where
      l: "foreach_loop rb_hash_update_i_objc ?es ?d w1 = (Inr ?d, w')"
      and p: "cf_pairs (objs w' ?d) = merge_entries None (cf_pairs (objs w1 ?d)) ?es"
      and u: "ustate w' = ustate w1 @ merge_calls None (cf_pairs (objs w1 ?d)) ?es"
      and o: "\<forall>h'. h' \<noteq> ?d \<longrightarrow> objs w' h' = objs w1 h'"
      using update_loop [OF c assms(4)] by blast
    have "rb_hash_merge E Y (map_option resolve r) rcv (Hash other) w = (Inr (Hash ?d), w')"
      using None dup l by (simp add: rb_hash_merge_def rb_hash_update_objc_def run)
    then show ?thesis
      using None p u o p1 u1 o1 n1 n2 by simp
  next
    case (Some f)
    obtain w' where
      l: "foreach_loop (rb_hash_update_block_i_objc Y (resolve f)) ?es ?d w1 = (Inr ?d, w')"
      and p: "cf_pairs (objs w' ?d) = merge_entries (Some f) (cf_pairs (objs w1 ?d)) ?es"
      and u: "ustate w' = ustate w1 @ merge_calls (Some f) (cf_pairs (objs w1 ?d)) ?es"
      and o: "\<forall>h'. h' \<noteq> ?d \<longrightarrow> objs w' h' = objs w1 h'"
      using update_block_loop [OF c assms(4), of Y f] by blast
    have "rb_hash_merge E Y (map_option resolve r) rcv (Hash other) w = (Inr (Hash ?d), w')"
      using Some dup l by (simp add: rb_hash_merge_def rb_hash_update_objc_def run)
    then show ?thesis
      using Some p u o p1 u1 o1 n1 n2 by simp
  qed
qed

theorem merge_resolves_on_duplicate_witness:
  "cf_pairs (objs p5_objc 0) = [(Symbol ''a'', Fixnum 1), (Symbol ''b'', Fixnum 2)]
   \<and> cf_pairs (objs p5_objc 1) = [(Symbol ''b'', Fixnum 3), (Symbol ''c'', Fixnum 4)]
   \<and> (\<exists>w'. rb_hash_merge (\<lambda>ps. ps) (\<lambda>p args w. (Inr Qnil, w)) (Some (resolve keep_old)) 0 (Hash 1) p5_objc
              = (Inr (Hash 2), w')
        \<and> cf_pairs (objs w' 2)
            = [(Symbol ''a'', Fixnum 1), (Symbol ''b'', Fixnum 2), (Symbol ''c'', Fixnum 4)]
        \<and> ustate w' = [Array [Symbol ''b'', Fixnum 2, Fixnum 3]]
        \<and> objs w' 0 = objs p5_objc 0 \<and> objs w' 1 = objs p5_objc 1)"
  using p5_objc_facts
    merge_resolves_on_duplicate [where E = "\<lambda>ps. ps" and rcv = 0 and other = 1 and w = p5_objc
      and r = "Some keep_old" and Y = "\<lambda>p args w. (Inr Qnil, w)"]
  by (simp add: merge_entries_def merge_step_def keep_old_def)

subsection \<open>Frozen hashes\<close>

text \<open>A hash whose mask has the frozen bit is refused by \<open>rb_hash_modify_check\<close>, and
  every operation that asks it on entry raises what it raises and leaves the store as
  it was.\<close>

lemma frozen_check_objc:
  "mask_freeze (objs w hash) \<Longrightarrow>
   rb_hash_modify_check_objc hash w
     = Some (Raise eRuntimeError ''can't modify frozen/immutable hash'')"
  by (simp add: rb_hash_modify_check_objc_def Let_def)

lemma frozen_refuses_objc:
  assumes "rb_hash_modify_check_objc hash w = Some e"
  shows "rb_hash_aset_objc hash key val w = (Inl e, w)"
    and "rb_hash_delete blk hash key w = (Inl e, w)"
    and "rb_hash_delete_if E (Some b) hash w = (Inl e, w)"
    and "rb_hash_set_default_objc hash val w = (Inl e, w)"
    and "rb_hash_rehash E hash w = (Inl e, w)"
  using assms
  by (simp_all add: rb_hash_aset_objc_def rb_hash_delete_def rb_hash_delete_if_def
        rb_hash_set_default_objc_def rb_hash_rehash_def)

text \<open>\<open>rb_hash_update\<close> does not ask whether the receiver may be modified; the
  \<open>[]=\<close> it does for each pair of the other hash asks. When the other hash is empty
  it answers the receiver, frozen or not.\<close>

lemma update_objc_empty_other:
  "cf_pairs (objs w other) = [] \<Longrightarrow>
   rb_hash_update_objc E Y blk rcv (Hash other) w = (Inr (Hash rcv), w)"
  by (simp add: rb_hash_update_objc_def rb_hash_foreach_objc_def CFDictionaryGetCount_def
      split: option.splits)

end
